theory Spec2Isabelle
  imports Main "HOL-Library.Word" "HOL-Library.Sublist" "HOL-Library.AList" "HOL-Library.FSet"
begin

section \<open>std::string primitives used by the sources\<close>

text \<open>
  A \<open>std::string\<close> is a byte sequence, modelled as \<open>string\<close> (a list of 8-bit
  characters). \<open>std::string::npos\<close> is modelled by \<open>None\<close>. Sizes and positions
  are \<open>nat\<close>: a position never exceeds the length of a string held in memory, so the
  64-bit range of \<open>size_t\<close> is not reached. Isabelle does not accept a name that ends
  in an underscore, so the data members are named without it (\<open>buffer_\<close> is
  \<open>buffer\<close>); a name that HOL already uses gets a prefix or a suffix.
\<close>

definition newline :: char where
  "newline = CHR 0x0A"

text \<open>\<open>s.substr(pos, n)\<close> and \<open>s.substr(pos)\<close>, for \<open>pos \<le> s.size()\<close> (every
  call site in the sources guarantees this; beyond it the library throws).\<close>

definition substr :: "string \<Rightarrow> nat \<Rightarrow> nat \<Rightarrow> string" where
  "substr s pos n = take n (drop pos s)"

definition substr_from :: "string \<Rightarrow> nat \<Rightarrow> string" where
  "substr_from s pos = drop pos s"

text \<open>Index of the first occurrence of a character, if any.\<close>

primrec index_of :: "char \<Rightarrow> string \<Rightarrow> nat option" where
  "index_of c [] = None"
| "index_of c (x # xs) = (if x = c then Some 0 else map_option Suc (index_of c xs))"

text \<open>\<open>s.find(c, pos)\<close>: the first index \<open>i \<ge> pos\<close> with \<open>s[i] == c\<close>.\<close>

definition find_char :: "string \<Rightarrow> char \<Rightarrow> nat \<Rightarrow> nat option" where
  "find_char s c pos = map_option (\<lambda>i. pos + i) (index_of c (drop pos s))"

section \<open>Buffer (io/buffer.h, buffer.cpp)\<close>

record Buffer =
  MAX_DELETED_BUFFER_SIZE :: nat
  buffer :: string
  buffer_ptr :: nat

text \<open>The constructors: an empty buffer with the read position at 0. The default
  constructor uses the threshold 4096. The mutex is not modelled: every operation holds
  it from its first to its last step, so the operations are atomic.\<close>

definition Buffer_new :: "nat \<Rightarrow> Buffer" where
  "Buffer_new max_deleted_buffer_size =
     \<lparr>MAX_DELETED_BUFFER_SIZE = max_deleted_buffer_size, buffer = [], buffer_ptr = 0\<rparr>"

definition Buffer_default :: Buffer where
  "Buffer_default = Buffer_new 4096"

text \<open>\<open>append(const std::string&)\<close>.\<close>

definition append_str :: "string \<Rightarrow> Buffer \<Rightarrow> Buffer" where
  "append_str data b = b\<lparr>buffer := buffer b @ data\<rparr>"

text \<open>\<open>append(const char*, uint64_t)\<close>: a null pointer (\<open>None\<close>) or a zero length
  appends nothing; otherwise the first \<open>len\<close> bytes are appended (the caller passes
  \<open>len\<close> no larger than the array).\<close>

definition append_n :: "string option \<Rightarrow> nat \<Rightarrow> Buffer \<Rightarrow> Buffer" where
  "append_n data len b =
     (case data of
        None \<Rightarrow> b
      | Some d \<Rightarrow> if len = 0 then b else b\<lparr>buffer := buffer b @ take len d\<rparr>)"

text \<open>\<open>read_line()\<close> returns the line and the updated buffer.\<close>

definition read_line :: "Buffer \<Rightarrow> string \<times> Buffer" where
  "read_line b =
     (if buffer_ptr b \<ge> length (buffer b) then ([], b)
      else case find_char (buffer b) newline (buffer_ptr b) of
        None \<Rightarrow> ([], b)
      | Some newline_pos \<Rightarrow>
          let result = substr (buffer b) (buffer_ptr b) (newline_pos - buffer_ptr b + 1);
              b1 = b\<lparr>buffer_ptr := newline_pos + 1\<rparr>;
              b2 = (if buffer_ptr b1 \<ge> MAX_DELETED_BUFFER_SIZE b1
                    then b1\<lparr>buffer := substr_from (buffer b1) (buffer_ptr b1),
                            buffer_ptr := 0\<rparr>
                    else b1)
          in (result, b2))"

text \<open>\<open>clear()\<close> and \<open>empty()\<close>.\<close>

definition clear :: "Buffer \<Rightarrow> Buffer" where
  "clear b = b\<lparr>buffer := [], buffer_ptr := 0\<rparr>"

definition empty_buf :: "Buffer \<Rightarrow> bool" where
  "empty_buf b = (buffer_ptr b \<ge> length (buffer b))"

subsection \<open>Sequences of operations\<close>

datatype buffer_op = Append string | AppendN "string option" nat | ReadLine

text \<open>The unread residue of a buffer: everything at or after the read position.\<close>

definition unread :: "Buffer \<Rightarrow> string" where
  "unread b = drop (buffer_ptr b) (buffer b)"

text \<open>Running a sequence of operations from a buffer, collecting the lines returned by
  \<open>read_line\<close> in order.\<close>

fun run_ops :: "Buffer \<Rightarrow> buffer_op list \<Rightarrow> string list \<times> Buffer" where
  "run_ops b [] = ([], b)"
| "run_ops b (Append d # ops) = run_ops (append_str d b) ops"
| "run_ops b (AppendN d n # ops) = run_ops (append_n d n b) ops"
| "run_ops b (ReadLine # ops) =
     (let (r, b1) = read_line b; (rs, b2) = run_ops b1 ops in (r # rs, b2))"

text \<open>The bytes an operation appends.\<close>

fun appended_by :: "buffer_op \<Rightarrow> string" where
  "appended_by (Append d) = d"
| "appended_by (AppendN None n) = []"
| "appended_by (AppendN (Some d) n) = (if n = 0 then [] else take n d)"
| "appended_by ReadLine = []"

definition appended :: "buffer_op list \<Rightarrow> string" where
  "appended ops = concat (map appended_by ops)"

text \<open>The two halves of a byte sequence around its last newline: everything up to and
  including it, and everything after it.\<close>

definition upto_last_newline :: "string \<Rightarrow> string" where
  "upto_last_newline s = rev (dropWhile (\<lambda>c. c \<noteq> newline) (rev s))"

definition after_last_newline :: "string \<Rightarrow> string" where
  "after_last_newline s = rev (takeWhile (\<lambda>c. c \<noteq> newline) (rev s))"

text \<open>The read position never passes the end of the stored bytes.\<close>

definition buffer_wf :: "Buffer \<Rightarrow> bool" where
  "buffer_wf b = (buffer_ptr b \<le> length (buffer b))"

section \<open>Further string helpers\<close>

text \<open>\<open>size_t\<close> subtraction wraps modulo \<open>2 ^ 64\<close>; a count that large, passed to
  \<open>substr\<close>, takes the rest of the string.\<close>

definition size_sub :: "nat \<Rightarrow> nat \<Rightarrow> nat" where
  "size_sub a b = (if b \<le> a then a - b else 2 ^ 64 - (b - a))"

text \<open>First index at which \<open>pat\<close> occurs in a string.\<close>

fun find_sub :: "string \<Rightarrow> string \<Rightarrow> nat option" where
  "find_sub pat [] = (if pat = [] then Some 0 else None)"
| "find_sub pat (x # xs) =
     (if prefix pat (x # xs) then Some 0 else map_option Suc (find_sub pat xs))"

text \<open>\<open>s.find(pat, pos)\<close>: the first index \<open>i \<ge> pos\<close> at which \<open>pat\<close> occurs.\<close>

definition find_str :: "string \<Rightarrow> string \<Rightarrow> nat \<Rightarrow> nat option" where
  "find_str s pat pos =
     (if pos > length s then None
      else map_option (\<lambda>i. pos + i) (find_sub pat (drop pos s)))"

text \<open>\<open>s.rfind(pat, pos)\<close>: the last index \<open>i \<le> pos\<close> at which \<open>pat\<close> occurs.\<close>

definition rfind_str :: "string \<Rightarrow> string \<Rightarrow> nat \<Rightarrow> nat option" where
  "rfind_str s pat pos =
     (case filter (\<lambda>i. prefix pat (drop i s)) (rev [0 ..< Suc (min pos (length s))]) of
        [] \<Rightarrow> None
      | i # _ \<Rightarrow> Some i)"

text \<open>\<open>find_first_not_of\<close> and \<open>find_last_not_of\<close> for a set of characters.\<close>

definition find_first_not_of :: "string \<Rightarrow> string \<Rightarrow> nat option" where
  "find_first_not_of s chars =
     (if \<forall>c \<in> set s. c \<in> set chars then None
      else Some (length (takeWhile (\<lambda>c. c \<in> set chars) s)))"

definition find_last_not_of :: "string \<Rightarrow> string \<Rightarrow> nat option" where
  "find_last_not_of s chars =
     (if \<forall>c \<in> set s. c \<in> set chars then None
      else Some (length s - 1 - length (takeWhile (\<lambda>c. c \<in> set chars) (rev s))))"

text \<open>The characters \<open>" \t\r\n"\<close> that \<open>trim\<close> strips.\<close>

definition trim_chars :: string where
  "trim_chars = [CHR 0x20, CHR 0x09, CHR 0x0D, CHR 0x0A]"

text \<open>\<open>trim\<close> (the same static function in each translation unit). When \<open>start\<close>
  exists so does \<open>end\<close>; the other branch is what \<open>npos - start + 1\<close> would give.\<close>

definition trim :: "string \<Rightarrow> string" where
  "trim s =
     (case find_first_not_of s trim_chars of
        None \<Rightarrow> []
      | Some start \<Rightarrow>
          (case find_last_not_of s trim_chars of
             None \<Rightarrow> substr_from s start
           | Some end' \<Rightarrow> substr s start (end' - start + 1)))"

text \<open>\<open>::tolower\<close> in the "C" locale (the program never sets another one): the 26
  upper-case ASCII letters are mapped to lower case, every other byte is unchanged.\<close>

definition tolower :: "char \<Rightarrow> char" where
  "tolower c =
     (let n = (of_char c :: nat) in if 65 \<le> n \<and> n \<le> 90 then char_of (n + 32) else c)"

definition to_lower :: "string \<Rightarrow> string" where
  "to_lower s = map tolower s"

text \<open>\<open>remove_spaces\<close> drops spaces and tabs only.\<close>

definition remove_spaces :: "string \<Rightarrow> string" where
  "remove_spaces s = filter (\<lambda>c. c \<noteq> CHR 0x20 \<and> c \<noteq> CHR 0x09) s"

text \<open>The loops \<open>while (!s.empty() && s.back() == '\n') s.pop_back();\<close>.\<close>

definition pop_newlines :: "string \<Rightarrow> string" where
  "pop_newlines s = rev (dropWhile (\<lambda>c. c = newline) (rev s))"

text \<open>\<open>std::getline\<close> called until it fails: the input split at newlines; a last
  line without a newline is returned when it is not empty. The second argument holds the
  current line, reversed.\<close>

fun getlines_acc :: "string \<Rightarrow> string \<Rightarrow> string list" where
  "getlines_acc [] cur = (if cur = [] then [] else [rev cur])"
| "getlines_acc (c # cs) cur =
     (if c = newline then rev cur # getlines_acc cs [] else getlines_acc cs (c # cur))"

definition getlines :: "string \<Rightarrow> string list" where
  "getlines s = getlines_acc s []"

text \<open>Character classes of \<open>remove_ansi\<close>.\<close>

definition is_digit :: "char \<Rightarrow> bool" where
  "is_digit c = (let n = (of_char c :: nat) in 48 \<le> n \<and> n \<le> 57)"

definition is_digit_or_semicolon :: "char \<Rightarrow> bool" where
  "is_digit_or_semicolon c = (is_digit c \<or> c = CHR '';'')"

definition is_letter :: "char \<Rightarrow> bool" where
  "is_letter c =
     (let n = (of_char c :: nat) in (65 \<le> n \<and> n \<le> 90) \<or> (97 \<le> n \<and> n \<le> 122))"

text \<open>\<open>remove_ansi\<close>: the index loop, as a recursion on the rest of the string.\<close>

function remove_ansi :: "string \<Rightarrow> string" where
  "remove_ansi [] = []"
| "remove_ansi (c # rest) =
     (if c = CHR 0x1B then
        (case rest of
           [] \<Rightarrow> remove_ansi rest
         | d # r2 \<Rightarrow>
             if d = CHR ''[''
             then (let r3 = dropWhile is_digit_or_semicolon r2
                   in case r3 of
                        [] \<Rightarrow> remove_ansi r3
                      | x # r4 \<Rightarrow> if is_letter x then remove_ansi r4 else remove_ansi r3)
             else remove_ansi rest)
      else if c = CHR ''['' \<and> rest \<noteq> [] \<and> is_digit (hd rest) \<and>
              (case dropWhile is_digit_or_semicolon rest of [] \<Rightarrow> False | x # _ \<Rightarrow> x = CHR ''m'')
      then remove_ansi (tl (dropWhile is_digit_or_semicolon rest))
      else c # remove_ansi rest)"
  by pat_completeness auto
termination
proof (relation "measure length", goal_cases)
  case 1
  show ?case by simp
next
  case (2 c rest)
  then show ?case by simp
next
  case (3 c rest d r2 r3)
  then show ?case
    using length_dropWhile_le[of is_digit_or_semicolon r2] by simp
next
  case (4 c rest d r2 r3 x r4)
  then have e: "dropWhile is_digit_or_semicolon r2 = x # r4"
    by simp
  have "length (dropWhile is_digit_or_semicolon r2) \<le> length r2"
    by (rule length_dropWhile_le)
  with e have "Suc (length r4) \<le> length r2"
    by simp
  with 4(2) show ?case by simp
next
  case (5 c rest d r2 r3 x r4)
  then show ?case
    using length_dropWhile_le[of is_digit_or_semicolon r2] by simp
next
  case (6 c rest d r2)
  then show ?case by simp
next
  case (7 c rest)
  have "length (tl (dropWhile is_digit_or_semicolon rest))
          \<le> length (dropWhile is_digit_or_semicolon rest)"
    by simp
  also have "\<dots> \<le> length rest"
    by (rule length_dropWhile_le)
  finally show ?case
    by simp
next
  case (8 c rest)
  then show ?case by simp
qed

section \<open>Time points and the child process handle\<close>

text \<open>
  \<open>std::chrono::system_clock::time_point\<close> with the library the Makefile builds against
  (g++, libstdc++): a signed 64-bit count of nanoseconds since the epoch. It is modelled
  as a 64-bit word read as a signed number (\<open>sint\<close>); \<open>+\<close> and \<open>*\<close> wrap as the
  machine operations do. \<open>uint64_t\<close> values are 64-bit words read as unsigned (\<open>unat\<close>).
\<close>

type_synonym time_point = "64 word"

text \<open>\<open>time_point::max()\<close>.\<close>

definition time_point_max :: time_point where
  "time_point_max = 0x7FFFFFFFFFFFFFFF"

text \<open>\<open>std::chrono::hours(h)\<close> converted to the clock's nanoseconds when it is added
  to a time point.\<close>

definition hours_to_duration :: "64 word \<Rightarrow> 64 word" where
  "hours_to_duration h = h * 3600000000000"

text \<open>\<open>system_clock::to_time_t\<close>: whole seconds, rounded towards zero; and
  \<open>system_clock::from_time_t\<close>.\<close>

definition to_time_t :: "time_point \<Rightarrow> int" where
  "to_time_t tp =
     (let n = sint tp in if 0 \<le> n then n div 1000000000 else - ((- n) div 1000000000))"

definition from_time_t :: "int \<Rightarrow> time_point" where
  "from_time_t t = word_of_int t * 1000000000"

text \<open>
  The C library and stream functions the sources call, which depend on the local time
  zone and on the stream library, are parameters of the model:
  \<^item> \<open>put_time_local t\<close>: \<open>localtime_r\<close> followed by \<open>std::put_time\<close> with the
    format \<open>%Y-%m-%d %H:%M:%S\<close>, on a \<open>time_t\<close>;
  \<^item> \<open>get_time_mktime s\<close>: \<open>std::get_time\<close> with the same format followed by
    \<open>mktime\<close>;
  \<^item> \<open>parse_log_time line\<close>: the static function \<open>parse_log_time\<close> of
    player_list.cpp, which reads the clock and uses \<open>sscanf\<close>, \<open>localtime_r\<close> and
    \<open>mktime\<close>;
  \<^item> \<open>extract_uint64 s\<close>: the stream extraction \<open>iss >> hours\<close> into a
    \<open>uint64_t\<close> from the rest \<open>s\<close> of a line, \<open>None\<close> when it fails.
\<close>

record time_env =
  put_time_local :: "int \<Rightarrow> string"
  get_time_mktime :: "string \<Rightarrow> int"
  parse_log_time :: "string \<Rightarrow> time_point"
  extract_uint64 :: "string \<Rightarrow> 64 word option"

text \<open>The text written for a permanent ban.\<close>

definition permanent_time_string :: string where
  "permanent_time_string = ''0000-00-00 00:00:00''"

text \<open>\<open>time_to_string\<close> and \<open>string_to_time\<close> of player_list.cpp.\<close>

definition time_to_string :: "time_env \<Rightarrow> time_point \<Rightarrow> bool \<Rightarrow> string" where
  "time_to_string env tp permanent =
     (if permanent then permanent_time_string else put_time_local env (to_time_t tp))"

definition string_to_time :: "time_env \<Rightarrow> string \<Rightarrow> time_point" where
  "string_to_time env s =
     (if s = permanent_time_string then time_point_max
      else from_time_t (get_time_mktime env s))"

subsection \<open>Program (io/program.h, program.cpp)\<close>

text \<open>
  Of the child process handle the model keeps the \<open>running_\<close> flag, the write end
  \<open>stdin_pipe_[1]\<close> of the pipe to the child's standard input, and the bytes written to
  that pipe so far.
\<close>

record Program =
  running :: bool
  stdin_pipe_1 :: int
  stdin_data :: string

text \<open>\<open>send_string\<close>: refused when the child is not running or the pipe is closed;
  otherwise the write loop delivers every byte (a pipe that accepts the writes).\<close>

definition send_string :: "string \<Rightarrow> Program \<Rightarrow> bool \<times> Program" where
  "send_string data p =
     (if \<not> running p \<or> stdin_pipe_1 p = - 1 then (False, p)
      else (True, p\<lparr>stdin_data := stdin_data p @ data\<rparr>))"

section \<open>PlayerList (player_list.h, player_list.cpp)\<close>

record OnlinePlayerInfo =
  op_name :: string
  join_time :: time_point
  op_client_info :: string

record BannedPlayerInfo =
  bp_name :: string
  bp_reason :: string
  ban_time :: time_point
  unban_time :: time_point
  is_permanent :: bool

record ForbiddenCommand =
  fc_command :: string
  ban_hours :: "64 word"

datatype LogEventType = NONE | PLAYER_JOIN | PLAYER_LEAVE | PLAYER_COMMAND | PLAYER_CHAT

record LogEvent =
  ev_type :: LogEventType
  ev_player_name :: string
  ev_content :: string
  ev_client_info :: string
  ev_timestamp :: time_point

text \<open>
  The state of a \<open>PlayerList\<close>. The unordered set and maps are lists in their iteration
  order (an association list for a map: lookup with \<open>map_of\<close>, \<open>m[k] = v\<close> with
  \<open>AList.update\<close>, \<open>erase\<close> with \<open>AList.delete\<close>). The iteration order of an unordered
  container is left open by the language and may change with a rehash; the lists fix
  one order (a new player at the front of \<open>all_players\<close>, a new key at the end of a
  map), and the properties below that speak of the maps are stated through \<open>map_of\<close>,
  which does not depend on it. The three files are part of the
  state, with their contents, \<open>None\<close> for a file that does not exist. The mutexes and
  the checker thread are not modelled, and neither is what is printed on the console.
\<close>

record PlayerList =
  all_players :: "string list"
  online_players :: "(string \<times> OnlinePlayerInfo) list"
  banned_players :: "(string \<times> BannedPlayerInfo) list"
  forbidden_commands :: "ForbiddenCommand list"
  program :: Program
  player_file :: "string option"
  banned_file :: "string option"
  forbidden_file :: "string option"

subsection \<open>Saving and loading\<close>

definition banned_header :: string where
  "banned_header = ''# name|reason|ban_time|unban_time'' @ [newline]"

text \<open>The line \<open>save_files\<close> writes for one record: its four fields, then the
  newline.\<close>

definition banned_fields :: "time_env \<Rightarrow> BannedPlayerInfo \<Rightarrow> string" where
  "banned_fields env info =
     bp_name info @ ''|'' @ bp_reason info @ ''|'' @
     time_to_string env (ban_time info) False @ ''|'' @
     time_to_string env (unban_time info) (is_permanent info)"

definition banned_line :: "time_env \<Rightarrow> BannedPlayerInfo \<Rightarrow> string" where
  "banned_line env info = banned_fields env info @ [newline]"

definition save_files :: "time_env \<Rightarrow> PlayerList \<Rightarrow> PlayerList" where
  "save_files env pl =
     pl\<lparr>player_file := Some (concat (map (\<lambda>p. p @ [newline]) (all_players pl))),
        banned_file :=
          Some (banned_header @ concat (map (\<lambda>p. banned_line env (snd p)) (banned_players pl)))\<rparr>"

text \<open>One iteration of the loop over the lines of the player file.\<close>

definition load_player_line :: "string \<Rightarrow> string list \<Rightarrow> string list" where
  "load_player_line line0 players =
     (let line = trim line0 in if line \<noteq> [] then List.insert line players else players)"

text \<open>\<open>p + 1\<close> for a position that may be \<open>npos\<close>: \<open>npos + 1\<close> wraps to 0.\<close>

definition pos_succ :: "nat option \<Rightarrow> nat" where
  "pos_succ p = (case p of None \<Rightarrow> 0 | Some i \<Rightarrow> i + 1)"

text \<open>One iteration of the loop over the lines of the ban file.\<close>

definition load_banned_line ::
  "time_env \<Rightarrow> string \<Rightarrow> (string \<times> BannedPlayerInfo) list \<Rightarrow> (string \<times> BannedPlayerInfo) list"
where
  "load_banned_line env line0 banned =
     (let line = trim line0 in
      if line = [] \<or> hd line = CHR ''#'' then banned
      else
        let p1 = find_char line CHR ''|'' 0;
            p2 = find_char line CHR ''|'' (pos_succ p1);
            p3 = find_char line CHR ''|'' (pos_succ p2)
        in case p1 of
             None \<Rightarrow> banned
           | Some i1 \<Rightarrow>
               (case p2 of
                  None \<Rightarrow> banned
                | Some i2 \<Rightarrow>
                    (case p3 of
                       None \<Rightarrow> banned
                     | Some i3 \<Rightarrow>
                         let unban_str = substr_from line (i3 + 1);
                             info = \<lparr>bp_name = substr line 0 i1,
                                     bp_reason = substr line (i1 + 1) (i2 - i1 - 1),
                                     ban_time =
                                       string_to_time env (substr line (i2 + 1) (i3 - i2 - 1)),
                                     unban_time = string_to_time env unban_str,
                                     is_permanent = (unban_str = permanent_time_string)\<rparr>
                         in AList.update (bp_name info) info banned)))"

text \<open>\<open>isspace\<close> in the "C" locale, as the extraction \<open>iss >> keyword\<close> uses it.\<close>

definition isspace :: "char \<Rightarrow> bool" where
  "isspace c = (c \<in> set [CHR 0x20, CHR 0x09, CHR 0x0A, CHR 0x0B, CHR 0x0C, CHR 0x0D])"

text \<open>One iteration of the loop over the lines of the forbidden-command file.\<close>

definition load_forbidden_line ::
  "time_env \<Rightarrow> string \<Rightarrow> ForbiddenCommand list \<Rightarrow> ForbiddenCommand list"
where
  "load_forbidden_line env line0 fcs =
     (let line = trim line0 in
      if line = [] \<or> hd line = CHR ''#'' then fcs
      else
        let keyword = takeWhile (\<lambda>c. \<not> isspace c) line;
            rest = dropWhile (\<lambda>c. \<not> isspace c) line
        in case extract_uint64 env rest of
             None \<Rightarrow> fcs
           | Some hours \<Rightarrow>
               let keyword' = (if keyword \<noteq> [] \<and> hd keyword = CHR ''/''
                               then substr_from keyword 1 else keyword)
               in fcs @ [\<lparr>fc_command = keyword', ban_hours = hours\<rparr>])"

text \<open>
  \<open>load_files\<close>: each file that exists is read line by line into the state. For a file
  that cannot be opened the source has the statement \<open>std::ofstream(player_file_);\<close>
  (and the same for the other two files). In C++ this statement declares a local,
  default-constructed stream named \<open>player_file_\<close>; it opens nothing, so the file is
  not created and the state is left as it is.
\<close>

definition load_files :: "time_env \<Rightarrow> PlayerList \<Rightarrow> PlayerList" where
  "load_files env pl =
     (let pl1 = (case player_file pl of
                   Some pf \<Rightarrow>
                     pl\<lparr>all_players :=
                          foldl (\<lambda>ps l. load_player_line l ps) (all_players pl) (getlines pf)\<rparr>
                 | None \<Rightarrow> pl);
          pl2 = (case banned_file pl1 of
                   Some bf \<Rightarrow>
                     pl1\<lparr>banned_players :=
                           foldl (\<lambda>b l. load_banned_line env l b) (banned_players pl1)
                             (getlines bf)\<rparr>
                 | None \<Rightarrow> pl1)
      in case forbidden_file pl2 of
           Some ff \<Rightarrow>
             pl2\<lparr>forbidden_commands :=
                   foldl (\<lambda>fcs l. load_forbidden_line env l fcs) (forbidden_commands pl2)
                     (getlines ff)\<rparr>
         | None \<Rightarrow> pl2)"

text \<open>The constructor: empty collections, then \<open>load_files\<close>.\<close>

definition PlayerList_new ::
  "time_env \<Rightarrow> string option \<Rightarrow> string option \<Rightarrow> string option \<Rightarrow> Program \<Rightarrow> PlayerList"
where
  "PlayerList_new env pf bf ff prog =
     load_files env
       \<lparr>all_players = [], online_players = [], banned_players = [],
        forbidden_commands = [], program = prog,
        player_file = pf, banned_file = bf, forbidden_file = ff\<rparr>"

subsection \<open>What a saved record needs to be read back\<close>

text \<open>
  A time point can be written and read back, to the second, when the library formats
  its second as a text that has no field separator and no line break, does not end in
  a character that \<open>trim\<close> strips, is not the text of a permanent ban, and is parsed
  back to the same second.
\<close>

definition time_ok :: "time_env \<Rightarrow> time_point \<Rightarrow> bool" where
  "time_ok env tp =
     (let s = put_time_local env (to_time_t tp) in
      get_time_mktime env s = to_time_t tp \<and> s \<noteq> [] \<and>
      CHR ''|'' \<notin> set s \<and> newline \<notin> set s \<and> last s \<notin> set trim_chars \<and>
      s \<noteq> permanent_time_string)"

text \<open>
  A record stored under the key \<open>k\<close> can be written and read back when its name is
  the key, the name and the reason have no field separator and no line break, the name
  does not begin with a character that \<open>trim\<close> strips or with the comment sign, and
  the times that are written can be written and read back.
\<close>

definition ban_record_ok :: "time_env \<Rightarrow> string \<Rightarrow> BannedPlayerInfo \<Rightarrow> bool" where
  "ban_record_ok env k info =
     (bp_name info = k \<and>
      CHR ''|'' \<notin> set (bp_name info) \<and> newline \<notin> set (bp_name info) \<and>
      (bp_name info = [] \<or> hd (bp_name info) \<notin> set (CHR ''#'' # trim_chars)) \<and>
      CHR ''|'' \<notin> set (bp_reason info) \<and> newline \<notin> set (bp_reason info) \<and>
      time_ok env (ban_time info) \<and>
      (is_permanent info \<or> time_ok env (unban_time info)))"

text \<open>A time point cut to whole seconds, and a record as it is after it was written
  and read back.\<close>

definition whole_seconds :: "time_point \<Rightarrow> time_point" where
  "whole_seconds tp = from_time_t (to_time_t tp)"

definition reloaded :: "BannedPlayerInfo \<Rightarrow> BannedPlayerInfo" where
  "reloaded info =
     info\<lparr>ban_time := whole_seconds (ban_time info),
          unban_time := (if is_permanent info then time_point_max
                         else whole_seconds (unban_time info))\<rparr>"

text \<open>A record that reading back leaves as it is: its times are whole seconds, and
  if it is permanent its unban time is the sentinel.\<close>

definition second_exact :: "BannedPlayerInfo \<Rightarrow> bool" where
  "second_exact info =
     (sint (ban_time info) mod 1000000000 = 0 \<and>
      (if is_permanent info then unban_time info = time_point_max
       else sint (unban_time info) mod 1000000000 = 0))"

subsection \<open>Ban and pardon\<close>

text \<open>\<open>ban\<close>; \<open>now\<close> is the reading of the clock that becomes the ban time.\<close>

definition ban ::
  "time_env \<Rightarrow> time_point \<Rightarrow> string \<Rightarrow> string \<Rightarrow> 64 word \<Rightarrow> PlayerList \<Rightarrow> bool \<times> PlayerList"
where
  "ban env now player reason banned_hours pl =
     (let permanent = (banned_hours = 0);
          info = \<lparr>bp_name = player, bp_reason = reason, ban_time = now,
                  unban_time = (if permanent then time_point_max
                                else now + hours_to_duration banned_hours),
                  is_permanent = permanent\<rparr>;
          pl1 = pl\<lparr>banned_players := AList.update player info (banned_players pl)\<rparr>;
          pl2 = pl1\<lparr>program :=
                      snd (send_string (''ban '' @ player @ '' '' @ reason @ [newline])
                             (program pl1))\<rparr>
      in (True, save_files env pl2))"

definition pardon :: "time_env \<Rightarrow> string \<Rightarrow> PlayerList \<Rightarrow> bool \<times> PlayerList" where
  "pardon env player pl =
     (if map_of (banned_players pl) player = None then (False, pl)
      else
        let pl1 = pl\<lparr>banned_players := AList.delete player (banned_players pl)\<rparr>;
            pl2 = pl1\<lparr>program :=
                        snd (send_string (''pardon '' @ player @ [newline]) (program pl1))\<rparr>
        in (True, save_files env pl2))"

subsection \<open>Log processing\<close>

text \<open>The string literals of the ban reasons are UTF-8 text; they are given as
  bytes.\<close>

text \<open>\<open>msg_forbidden_command\<close>: the UTF-8 bytes of the literal that
  opens the reason for an issued command (it ends in \<open>: /\<close>).\<close>

definition msg_forbidden_command :: string where
  "msg_forbidden_command =
     [CHR 0xE6, CHR 0x89, CHR 0xA7, CHR 0xE8, CHR 0xA1, CHR 0x8C, CHR 0xE8, CHR 0xA2,
      CHR 0xAB, CHR 0xE7, CHR 0xA6, CHR 0x81, CHR 0xE6, CHR 0xAD, CHR 0xA2, CHR 0xE7,
      CHR 0x9A, CHR 0x84, CHR 0xE6, CHR 0x8C, CHR 0x87, CHR 0xE4, CHR 0xBB, CHR 0xA4,
      CHR 0x3A, CHR 0x20, CHR 0x2F]"

text \<open>\<open>msg_forbidden_operation\<close>: the UTF-8 bytes of the literal that
  opens the reason for a bracketed operation (it ends in \<open>: [\<close>).\<close>

definition msg_forbidden_operation :: string where
  "msg_forbidden_operation =
     [CHR 0xE6, CHR 0x89, CHR 0xA7, CHR 0xE8, CHR 0xA1, CHR 0x8C, CHR 0xE8, CHR 0xA2,
      CHR 0xAB, CHR 0xE7, CHR 0xA6, CHR 0x81, CHR 0xE6, CHR 0xAD, CHR 0xA2, CHR 0xE7,
      CHR 0x9A, CHR 0x84, CHR 0xE6, CHR 0x93, CHR 0x8D, CHR 0xE4, CHR 0xBD, CHR 0x9C,
      CHR 0x3A, CHR 0x20, CHR 0x5B]"

text \<open>\<open>msg_will_be\<close>: the UTF-8 bytes of the literal that follows the
  command or operation (it starts with \<open>, \<close>).\<close>

definition msg_will_be :: string where
  "msg_will_be =
     [CHR 0x2C, CHR 0x20, CHR 0xE5, CHR 0xB0, CHR 0x86, CHR 0xE8, CHR 0xA2, CHR 0xAB]"

text \<open>\<open>msg_banned_until\<close>: the UTF-8 bytes of the literal before the
  unban time.\<close>

definition msg_banned_until :: string where
  "msg_banned_until =
     [CHR 0xE5, CHR 0xB0, CHR 0x81, CHR 0xE7, CHR 0xA6, CHR 0x81, CHR 0xE8, CHR 0x87,
      CHR 0xB3]"

text \<open>\<open>msg_full_stop\<close>: the UTF-8 bytes of the ideographic full
  stop.\<close>

definition msg_full_stop :: string where
  "msg_full_stop =
     [CHR 0xE3, CHR 0x80, CHR 0x82]"

text \<open>\<open>msg_banned_forever\<close>: the UTF-8 bytes of the literal for a
  permanent ban.\<close>

definition msg_banned_forever :: string where
  "msg_banned_forever =
     [CHR 0xE6, CHR 0xB0, CHR 0xB8, CHR 0xE4, CHR 0xB9, CHR 0x85, CHR 0xE5, CHR 0xB0,
      CHR 0x81, CHR 0xE7, CHR 0xA6, CHR 0x81, CHR 0xE3, CHR 0x80, CHR 0x82]"

text \<open>\<open>msg_appeal\<close>: the UTF-8 bytes of the closing literal.\<close>

definition msg_appeal :: string where
  "msg_appeal =
     [CHR 0xE6, CHR 0x9C, CHR 0x89, CHR 0xE5, CHR 0xBC, CHR 0x82, CHR 0xE8, CHR 0xAE,
      CHR 0xAE, CHR 0xE8, CHR 0xAF, CHR 0xB7, CHR 0xE5, CHR 0x9C, CHR 0xA8, CHR 0xE6,
      CHR 0x9C, CHR 0x8D, CHR 0xE5, CHR 0x8A, CHR 0xA1, CHR 0xE5, CHR 0x99, CHR 0xA8,
      CHR 0xE7, CHR 0xAE, CHR 0xA1, CHR 0xE7, CHR 0x90, CHR 0x86, CHR 0xE7, CHR 0xBD,
      CHR 0x91, CHR 0xE7, CHR 0xAB, CHR 0x99, CHR 0xE6, CHR 0x8F, CHR 0x90, CHR 0xE5,
      CHR 0x87, CHR 0xBA, CHR 0xE8, CHR 0xA7, CHR 0xA3, CHR 0xE5, CHR 0xB0, CHR 0x81,
      CHR 0xE7, CHR 0x94, CHR 0xB3, CHR 0xE8, CHR 0xAF, CHR 0xB7, CHR 0xE3, CHR 0x80,
      CHR 0x82]"

text \<open>The loop of the issued-command branch over \<open>forbidden_commands_\<close>, which ends
  at the first rule whose keyword occurs in \<open>match_str\<close>. \<open>now_reason\<close> is the reading
  of the clock taken for the reason, \<open>now_ban\<close> the later one taken inside \<open>ban\<close>.\<close>

fun scan_forbidden_commands ::
  "time_env \<Rightarrow> time_point \<Rightarrow> time_point \<Rightarrow> string \<Rightarrow> LogEvent \<Rightarrow>
   ForbiddenCommand list \<Rightarrow> PlayerList \<Rightarrow> PlayerList"
where
  "scan_forbidden_commands env now_reason now_ban match_str event [] pl = pl"
| "scan_forbidden_commands env now_reason now_ban match_str event (fc # fcs) pl =
     (let keyword = to_lower (remove_spaces (fc_command fc)) in
      if find_str match_str keyword 0 \<noteq> None then
        let unban_time = now_reason + hours_to_duration (ban_hours fc);
            time_str = time_to_string env unban_time False;
            reason = msg_forbidden_command @ ev_content event @ msg_will_be @
                     (if ban_hours fc \<noteq> 0 then msg_banned_until @ time_str @ msg_full_stop
                      else msg_banned_forever) @
                     msg_appeal
        in snd (ban env now_ban (ev_player_name event) reason (ban_hours fc) pl)
      else scan_forbidden_commands env now_reason now_ban match_str event fcs pl)"

text \<open>The loop of the bracket branch, which also asks for a found player.\<close>

fun scan_forbidden_operations ::
  "time_env \<Rightarrow> time_point \<Rightarrow> time_point \<Rightarrow> string \<Rightarrow> string \<Rightarrow> LogEvent \<Rightarrow>
   ForbiddenCommand list \<Rightarrow> PlayerList \<Rightarrow> PlayerList"
where
  "scan_forbidden_operations env now_reason now_ban match_str found_player event [] pl = pl"
| "scan_forbidden_operations env now_reason now_ban match_str found_player event (fc # fcs) pl =
     (let keyword = to_lower (remove_spaces (fc_command fc)) in
      if find_str match_str keyword 0 \<noteq> None \<and> found_player \<noteq> [] then
        let unban_time = now_reason + hours_to_duration (ban_hours fc);
            time_str = time_to_string env unban_time False;
            reason = msg_forbidden_operation @ ev_content event @ '']'' @ msg_will_be @
                     (if ban_hours fc \<noteq> 0 then msg_banned_until @ time_str @ msg_full_stop
                      else msg_banned_forever) @
                     msg_appeal
        in snd (ban env now_ban found_player reason (ban_hours fc) pl)
      else scan_forbidden_operations env now_reason now_ban match_str found_player event fcs pl)"

text \<open>The loop over \<open>all_players_\<close> that finds the known player whose name occurs
  first in the content; the accumulator is \<open>(found_player, earliest_pos)\<close>.\<close>

fun find_player_loop ::
  "string \<Rightarrow> string list \<Rightarrow> string \<times> nat option \<Rightarrow> string \<times> nat option"
where
  "find_player_loop content [] acc = acc"
| "find_player_loop content (player # players) (found_player, earliest_pos) =
     (case find_str content player 0 of
        None \<Rightarrow> find_player_loop content players (found_player, earliest_pos)
      | Some player_pos \<Rightarrow>
          if (case earliest_pos of None \<Rightarrow> True | Some e \<Rightarrow> player_pos < e)
          then find_player_loop content players (player, Some player_pos)
          else find_player_loop content players (found_player, earliest_pos))"

text \<open>The branches of \<open>process_log_line\<close>, in the order of the source. Each returns
  \<open>None\<close> when the branch is not taken and control falls through to the next one.\<close>

definition branch_joined_with ::
  "string \<Rightarrow> LogEvent \<Rightarrow> PlayerList \<Rightarrow> (LogEvent \<times> PlayerList) option"
where
  "branch_joined_with content event pl =
     (case find_str content '' joined with '' 0 of
        None \<Rightarrow> None
      | Some pos \<Rightarrow>
          (case rfind_str content ''Player '' pos of
             None \<Rightarrow> None
           | Some player_pos \<Rightarrow>
               let name_start = player_pos + 7;
                   name = trim (substr content name_start (size_sub pos name_start));
                   client = pop_newlines (trim (substr_from content (pos + 13)));
                   event1 = event\<lparr>ev_player_name := name, ev_client_info := client,
                                  ev_type := PLAYER_JOIN\<rparr>
               in Some (event1,
                        pl\<lparr>all_players := List.insert name (all_players pl),
                           online_players :=
                             AList.update name
                               \<lparr>op_name = name, join_time = ev_timestamp event1,
                                op_client_info = client\<rparr>
                               (online_players pl)\<rparr>)))"

definition branch_joined_the_game ::
  "string \<Rightarrow> LogEvent \<Rightarrow> PlayerList \<Rightarrow> (LogEvent \<times> PlayerList) option"
where
  "branch_joined_the_game content event pl =
     (case find_str content '' joined the game'' 0 of
        None \<Rightarrow> None
      | Some pos \<Rightarrow>
          let name = trim (substr content 0 pos);
              event1 = event\<lparr>ev_player_name := name, ev_client_info := ''vanilla'',
                             ev_type := PLAYER_JOIN\<rparr>
          in Some (event1,
                   pl\<lparr>all_players := List.insert name (all_players pl),
                      online_players :=
                        AList.update name
                          \<lparr>op_name = name, join_time = ev_timestamp event1,
                           op_client_info = ''vanilla''\<rparr>
                          (online_players pl)\<rparr>))"

definition branch_left_the_game ::
  "string \<Rightarrow> LogEvent \<Rightarrow> PlayerList \<Rightarrow> (LogEvent \<times> PlayerList) option"
where
  "branch_left_the_game content event pl =
     (case find_str content '' left the game'' 0 of
        None \<Rightarrow> None
      | Some pos \<Rightarrow>
          let name = trim (substr content 0 pos);
              event1 = event\<lparr>ev_player_name := name, ev_type := PLAYER_LEAVE\<rparr>
          in Some (event1, pl\<lparr>online_players := AList.delete name (online_players pl)\<rparr>))"

definition branch_issued_command ::
  "time_env \<Rightarrow> time_point \<Rightarrow> time_point \<Rightarrow> string \<Rightarrow> LogEvent \<Rightarrow> PlayerList \<Rightarrow>
   (LogEvent \<times> PlayerList) option"
where
  "branch_issued_command env now_reason now_ban content event pl =
     (case find_str content '' issued server command: /'' 0 of
        None \<Rightarrow> None
      | Some pos \<Rightarrow>
          let event1 = event\<lparr>ev_player_name := trim (substr content 0 pos),
                             ev_content := pop_newlines (substr_from content (pos + 25)),
                             ev_type := PLAYER_COMMAND\<rparr>;
              match_str = to_lower (remove_spaces content);
              pl1 = scan_forbidden_commands env now_reason now_ban match_str event1
                      (forbidden_commands pl) pl
          in Some (event1\<lparr>ev_content := CHR ''/'' # ev_content event1\<rparr>, pl1))"

definition branch_bracket ::
  "time_env \<Rightarrow> time_point \<Rightarrow> time_point \<Rightarrow> string \<Rightarrow> LogEvent \<Rightarrow> PlayerList \<Rightarrow>
   (LogEvent \<times> PlayerList) option"
where
  "branch_bracket env now_reason now_ban content event pl =
     (if content \<noteq> [] \<and> hd content = CHR ''['' then
        (case find_char content CHR '']'' 0 of
           None \<Rightarrow> None
         | Some end_bracket \<Rightarrow>
             (case find_char content CHR '':'' 0 of
                None \<Rightarrow> None
              | Some colon_pos \<Rightarrow>
                  if colon_pos < end_bracket then
                    let bracket_content = substr content 1 (end_bracket - 1);
                        match_str = to_lower (remove_spaces bracket_content);
                        found_player =
                          fst (find_player_loop content (all_players pl) ([], None));
                        event1 = event\<lparr>ev_type := PLAYER_COMMAND,
                                       ev_player_name := found_player,
                                       ev_content := pop_newlines bracket_content\<rparr>;
                        pl1 = scan_forbidden_operations env now_reason now_ban match_str
                                found_player event1 (forbidden_commands pl) pl
                    in Some (event1\<lparr>ev_content := ''['' @ ev_content event1 @ '']''\<rparr>, pl1)
                  else None))
      else None)"

definition branch_chat ::
  "string \<Rightarrow> LogEvent \<Rightarrow> PlayerList \<Rightarrow> (LogEvent \<times> PlayerList) option"
where
  "branch_chat content event pl =
     (if content \<noteq> [] \<and> hd content = CHR ''<'' then
        (case find_char content CHR ''>'' 0 of
           None \<Rightarrow> None
         | Some end' \<Rightarrow>
             Some (event\<lparr>ev_player_name := substr content 1 (end' - 1),
                         ev_content := pop_newlines (trim (substr_from content (end' + 1))),
                         ev_type := PLAYER_CHAT\<rparr>,
                   pl))
      else None)"

text \<open>\<open>process_log_line\<close>.\<close>

definition process_log_line ::
  "time_env \<Rightarrow> time_point \<Rightarrow> time_point \<Rightarrow> string \<Rightarrow> PlayerList \<Rightarrow> LogEvent \<times> PlayerList"
where
  "process_log_line env now_reason now_ban log_line pl =
     (let clean_line = remove_ansi log_line;
          event = \<lparr>ev_type = NONE, ev_player_name = [], ev_content = [],
                   ev_client_info = [], ev_timestamp = parse_log_time env clean_line\<rparr>
      in case find_str clean_line '']: '' 0 of
           None \<Rightarrow> (event, pl)
         | Some content_start \<Rightarrow>
             let content = substr_from clean_line (content_start + 3) in
             (case branch_joined_with content event pl of
                Some r \<Rightarrow> r
              | None \<Rightarrow>
             (case branch_joined_the_game content event pl of
                Some r \<Rightarrow> r
              | None \<Rightarrow>
             (case branch_left_the_game content event pl of
                Some r \<Rightarrow> r
              | None \<Rightarrow>
             (case branch_issued_command env now_reason now_ban content event pl of
                Some r \<Rightarrow> r
              | None \<Rightarrow>
             (case branch_bracket env now_reason now_ban content event pl of
                Some r \<Rightarrow> r
              | None \<Rightarrow>
             (case branch_chat content event pl of
                Some r \<Rightarrow> r
              | None \<Rightarrow> (event, pl))))))))"

section \<open>CommandRequestManager (command_request.h, command_request.cpp)\<close>

text \<open>A request; \<open>voted_ips\<close> is a finite set, as an \<open>unordered_set\<close> is. (The member
  \<open>id\<close> is named \<open>req_id\<close>, since \<open>id\<close> is the identity function of HOL.)\<close>

record RequestInfo =
  req_id :: string
  applicant :: string
  command :: string
  reason :: string
  image_path :: string
  voted_ips :: "string fset"
  created_at :: time_point
  executed_at :: time_point
  executed :: bool

definition vote_count :: "RequestInfo \<Rightarrow> nat" where
  "vote_count r = fcard (voted_ips r)"

text \<open>
  The state of the manager: the threshold, whether an execute callback was given (a
  \<open>std::function\<close> may be empty), and the map of requests as an association list in
  its iteration order. Persistence of the requests (\<open>save_data\<close>, \<open>load_data\<close>), the
  image files and the checker thread's timing are not modelled.
\<close>

record CommandRequestManager =
  vote_threshold :: nat
  execute_callback_set :: bool
  requests :: "(string \<times> RequestInfo) list"

text \<open>\<open>vote\<close> returns the status code and the updated manager.\<close>

definition vote :: "string \<Rightarrow> string \<Rightarrow> CommandRequestManager \<Rightarrow> int \<times> CommandRequestManager" where
  "vote request_id ip m =
     (case map_of (requests m) request_id of
        None \<Rightarrow> (2, m)
      | Some req \<Rightarrow>
          if executed req then (3, m)
          else if ip |\<in>| voted_ips req then (1, m)
          else (0, m\<lparr>requests :=
                       AList.update request_id
                         (req\<lparr>voted_ips := finsert ip (voted_ips req)\<rparr>) (requests m)\<rparr>))"

text \<open>\<open>is_self_pardon\<close>.\<close>

definition is_self_pardon :: "string \<Rightarrow> string \<Rightarrow> bool" where
  "is_self_pardon applicant' command' =
     (let cmd_lower0 = to_lower (remove_spaces command');
          applicant_lower = to_lower applicant';
          cmd_lower = (if cmd_lower0 \<noteq> [] \<and> hd cmd_lower0 = CHR ''/''
                       then substr_from cmd_lower0 1 else cmd_lower0)
      in if find_str cmd_lower ''pardon'' 0 = Some 0
         then (let rest = substr_from cmd_lower 6
               in find_str rest applicant_lower 0 \<noteq> None)
         else False)"

subsection \<open>The specification of the self-pardon test\<close>

text \<open>
  What the specification says \<open>is_self_pardon\<close> computes, written from its words and
  without the helper functions of the source. Case folding replaces each of the
  letters \<open>A\<close> to \<open>Z\<close> by the small letter at the same place of the alphabet and keeps
  every other character. White space is the six characters space, horizontal tab, line
  feed, vertical tab, form feed and carriage return.
\<close>

definition upper_case_letters :: string where
  "upper_case_letters = ''ABCDEFGHIJKLMNOPQRSTUVWXYZ''"

definition lower_case_letters :: string where
  "lower_case_letters = ''abcdefghijklmnopqrstuvwxyz''"

definition case_fold_char :: "char \<Rightarrow> char" where
  "case_fold_char c =
     (case map_of (zip upper_case_letters lower_case_letters) c of
        Some l \<Rightarrow> l
      | None \<Rightarrow> c)"

definition case_fold :: "string \<Rightarrow> string" where
  "case_fold s = map case_fold_char s"

definition white_space :: string where
  "white_space = [CHR 0x20, CHR 0x09, CHR 0x0A, CHR 0x0B, CHR 0x0C, CHR 0x0D]"

definition blank_and_tab :: string where
  "blank_and_tab = [CHR 0x20, CHR 0x09]"

definition strip_chars :: "string \<Rightarrow> string \<Rightarrow> string" where
  "strip_chars cs s = filter (\<lambda>c. c \<notin> set cs) s"

definition drop_leading_slash :: "string \<Rightarrow> string" where
  "drop_leading_slash s = (case s of [] \<Rightarrow> [] | c # cs \<Rightarrow> if c = CHR ''/'' then cs else s)"

text \<open>The test for a given set of characters to strip: the command, case-folded and
  stripped, without a leading slash, begins with \<open>pardon\<close>, and the remainder after
  \<open>pardon\<close> contains the case-folded applicant as a substring. Beginning with and
  containing are the notions \<open>prefix\<close> and \<open>sublist\<close> of the list library.\<close>

definition self_pardon_text :: "string \<Rightarrow> string \<Rightarrow> string \<Rightarrow> bool" where
  "self_pardon_text stripped applicant' command' =
     (let text = drop_leading_slash (strip_chars stripped (case_fold command'))
      in prefix ''pardon'' text \<and>
         sublist (case_fold applicant') (drop (length ''pardon'') text))"

text \<open>The test as the specification words it, stripping white space, and the test
  that strips spaces and tabs only.\<close>

definition is_self_pardon_spec :: "string \<Rightarrow> string \<Rightarrow> bool" where
  "is_self_pardon_spec applicant' command' = self_pardon_text white_space applicant' command'"

definition is_self_pardon_blank_tab :: "string \<Rightarrow> string \<Rightarrow> bool" where
  "is_self_pardon_blank_tab applicant' command' =
     self_pardon_text blank_and_tab applicant' command'"

text \<open>
  The first loop of \<open>check_and_execute\<close>, over the requests in iteration order. The
  clock is read once for each request that is executed: \<open>clock i\<close> is the \<open>i\<close>-th
  reading taken during the pass, and \<open>i\<close> counts the readings taken so far. The result
  is the updated map and the vector \<open>to_execute\<close>.
\<close>

fun check_loop ::
  "nat \<Rightarrow> (nat \<Rightarrow> time_point) \<Rightarrow> nat \<Rightarrow> (string \<times> RequestInfo) list \<Rightarrow>
   (string \<times> RequestInfo) list \<times> RequestInfo list"
where
  "check_loop threshold clock i [] = ([], [])"
| "check_loop threshold clock i ((k, req) # rest) =
     (if \<not> executed req \<and> vote_count req \<ge> threshold then
        (let req1 = req\<lparr>executed := True, executed_at := clock i\<rparr>;
             (rest1, to_execute) = check_loop threshold clock (Suc i) rest
         in ((k, req1) # rest1, req1 # to_execute))
      else
        (let (rest1, to_execute) = check_loop threshold clock i rest
         in ((k, req) # rest1, to_execute)))"

text \<open>\<open>check_and_execute\<close>: the updated manager and the calls made to the execute
  callback, in order, each with its arguments \<open>(command, applicant)\<close>.\<close>

definition check_and_execute ::
  "(nat \<Rightarrow> time_point) \<Rightarrow> CommandRequestManager \<Rightarrow> CommandRequestManager \<times> (string \<times> string) list"
where
  "check_and_execute clock m =
     (let (requests1, to_execute) = check_loop (vote_threshold m) clock 0 (requests m);
          calls = (if execute_callback_set m
                   then map (\<lambda>req. (command req, applicant req)) to_execute else [])
      in (m\<lparr>requests := requests1\<rparr>, calls))"

text \<open>A request that one pass of the executor has to execute.\<close>

definition ready :: "nat \<Rightarrow> RequestInfo \<Rightarrow> bool" where
  "ready threshold req = (\<not> executed req \<and> vote_count req \<ge> threshold)"

section \<open>ServerManager (server_manager.h, server_manager.cpp)\<close>

text \<open>Of the supervisor the model keeps its own \<open>running_\<close> flag (here
  \<open>sm_running\<close>) and the child process handle it points to. In \<open>main\<close> this is the
  handle that the \<open>PlayerList\<close> refers to as well; each model carries the handle it
  writes to, and no property below relates the two.\<close>

record ServerManager =
  sm_running :: bool
  sm_program :: Program

definition execute_command :: "string \<Rightarrow> ServerManager \<Rightarrow> ServerManager" where
  "execute_command command' sm =
     (if \<not> sm_running sm then sm
      else
        let cmd = (if command' \<noteq> [] \<and> hd command' = CHR ''/''
                   then substr_from command' 1 else command')
        in sm\<lparr>sm_program := snd (send_string (cmd @ [newline]) (sm_program sm))\<rparr>)"

section \<open>An instance of the library parameters: the time zone UTC\<close>

text \<open>
  The theorems below hold for every \<open>time_env\<close>. To evaluate the model on concrete
  inputs, here is the instance for a process that runs in the time zone UTC: the civil
  date of a day number and back (the proleptic Gregorian calendar), the format
  \<open>%Y-%m-%d %H:%M:%S\<close> for years of four digits, and its parser.
\<close>

definition civil_from_days :: "int \<Rightarrow> int \<times> int \<times> int" where
  "civil_from_days z =
     (let z1 = z + 719468;
          era = z1 div 146097;
          doe = z1 mod 146097;
          yoe = (doe - doe div 1460 + doe div 36524 - doe div 146096) div 365;
          y = yoe + era * 400;
          doy = doe - (365 * yoe + yoe div 4 - yoe div 100);
          mp = (5 * doy + 2) div 153;
          d = doy - (153 * mp + 2) div 5 + 1;
          m = (if mp < 10 then mp + 3 else mp - 9)
      in (if m \<le> 2 then y + 1 else y, m, d))"

definition days_from_civil :: "int \<Rightarrow> int \<Rightarrow> int \<Rightarrow> int" where
  "days_from_civil y m d =
     (let y1 = (if m \<le> 2 then y - 1 else y);
          era = y1 div 400;
          yoe = y1 mod 400;
          doy = (153 * (if m > 2 then m - 3 else m + 9) + 2) div 5 + d - 1;
          doe = yoe * 365 + yoe div 4 - yoe div 100 + doy
      in era * 146097 + doe - 719468)"

definition digit_char :: "int \<Rightarrow> char" where
  "digit_char d = char_of (48 + nat (d mod 10))"

definition pad2 :: "int \<Rightarrow> string" where
  "pad2 n = [digit_char (n div 10), digit_char n]"

definition pad4 :: "int \<Rightarrow> string" where
  "pad4 n = [digit_char (n div 1000), digit_char (n div 100), digit_char (n div 10),
             digit_char n]"

definition utc_put_time :: "int \<Rightarrow> string" where
  "utc_put_time t =
     (let secs = t mod 86400;
          (y, m, d) = civil_from_days (t div 86400)
      in pad4 y @ ''-'' @ pad2 m @ ''-'' @ pad2 d @ '' '' @
         pad2 (secs div 3600) @ '':'' @ pad2 (secs mod 3600 div 60) @ '':'' @ pad2 (secs mod 60))"

definition digit_val :: "char \<Rightarrow> int" where
  "digit_val c = int (of_char c) - 48"

definition number_at :: "string \<Rightarrow> nat \<Rightarrow> nat \<Rightarrow> int" where
  "number_at s pos n = foldl (\<lambda>acc c. acc * 10 + digit_val c) 0 (substr s pos n)"

text \<open>A string is of the shape \<open>dddd-dd-dd dd:dd:dd\<close>.\<close>

definition time_shaped :: "string \<Rightarrow> bool" where
  "time_shaped s =
     (length s = 19 \<and>
      (\<forall>i \<in> set [0, 1, 2, 3, 5, 6, 8, 9, 11, 12, 14, 15, 17, 18]. is_digit (s ! i)) \<and>
      s ! 4 = CHR ''-'' \<and> s ! 7 = CHR ''-'' \<and> s ! 10 = CHR '' '' \<and>
      s ! 13 = CHR '':'' \<and> s ! 16 = CHR '':'')"

text \<open>The month, day, hour, minute and second of a string of that shape are in the
  ranges that \<open>std::get_time\<close> accepts.\<close>

definition time_in_range :: "string \<Rightarrow> bool" where
  "time_in_range s =
     (1 \<le> number_at s 5 2 \<and> number_at s 5 2 \<le> 12 \<and>
      1 \<le> number_at s 8 2 \<and> number_at s 8 2 \<le> 31 \<and>
      number_at s 11 2 \<le> 23 \<and> number_at s 14 2 \<le> 59 \<and> number_at s 17 2 \<le> 60)"

text \<open>
  The parser. \<open>std::get_time\<close> reads the fields from the front of the text and leaves
  what follows them unread, so the text is parsed from its first 19 characters. A text
  whose first field cannot be read leaves the \<open>struct tm\<close> zeroed, and
  \<open>string_to_time\<close> passes it on to \<open>mktime\<close> without looking at the stream's state:
  the result is the time of the zeroed \<open>struct tm\<close>, the last day of 1899. The instance
  gives that time to every text that does not begin with a well-formed time. (For a
  text that fails after some fields the library keeps the fields read so far, and it
  accepts fields of fewer digits; the instance does not follow it there, and it is
  used below only on texts that begin with a well-formed time or whose first character
  is not a digit.)
\<close>

definition utc_get_time_mktime :: "string \<Rightarrow> int" where
  "utc_get_time_mktime s =
     (let t = take 19 s
      in if time_shaped t \<and> time_in_range t then
           days_from_civil (number_at t 0 4) (number_at t 5 2) (number_at t 8 2) * 86400 +
           number_at t 11 2 * 3600 + number_at t 14 2 * 60 + number_at t 17 2
         else days_from_civil 1900 1 0 * 86400)"

text \<open>Extraction of an unsigned decimal number after leading white space: an optional
  sign, then digits; a number above \<open>2^64 - 1\<close> makes the extraction fail, and a minus
  sign negates the number modulo \<open>2^64\<close>.\<close>

definition utc_extract_uint64 :: "string \<Rightarrow> 64 word option" where
  "utc_extract_uint64 s =
     (let rest = dropWhile isspace s;
          negative = (rest \<noteq> [] \<and> hd rest = CHR ''-'');
          signed = (rest \<noteq> [] \<and> (hd rest = CHR ''+'' \<or> hd rest = CHR ''-''));
          digits = takeWhile is_digit (if signed then tl rest else rest);
          v = foldl (\<lambda>acc c. acc * 10 + digit_val c) 0 digits
      in if digits = [] \<or> v > 18446744073709551615 then None
         else Some (if negative then - word_of_int v else word_of_int v))"

text \<open>The instance; its \<open>parse_log_time\<close> gives every line the time 0.\<close>

definition utc_env :: time_env where
  "utc_env =
     \<lparr>put_time_local = utc_put_time, get_time_mktime = utc_get_time_mktime,
      parse_log_time = (\<lambda>line. 0), extract_uint64 = utc_extract_uint64\<rparr>"

section \<open>Concrete inputs\<close>

text \<open>A manager with the threshold 2 and three requests: \<open>r1\<close> has two votes and is
  not executed, \<open>r2\<close> has one vote, \<open>r3\<close> has three votes and was executed before.\<close>

definition example_request :: "string \<Rightarrow> string \<Rightarrow> string fset \<Rightarrow> bool \<Rightarrow> RequestInfo" where
  "example_request i c ips ex =
     \<lparr>req_id = i, applicant = ''alice'', command = c, reason = ''please'', image_path = [],
      voted_ips = ips, created_at = 0, executed_at = 0, executed = ex\<rparr>"

definition example_manager :: CommandRequestManager where
  "example_manager =
     \<lparr>vote_threshold = 2, execute_callback_set = True,
      requests =
        [(''r1'', example_request ''r1'' ''/say hi'' {|''1.2.3.4'', ''1.2.3.5''|} False),
         (''r2'', example_request ''r2'' ''/list'' {|''1.2.3.4''|} False),
         (''r3'', example_request ''r3'' ''/stop'' {|''1.2.3.4'', ''1.2.3.5'', ''1.2.3.6''|}
                    True)]\<rparr>"

text \<open>A clock whose \<open>i\<close>-th reading is \<open>100 + i\<close>.\<close>

definition example_clock :: "nat \<Rightarrow> time_point" where
  "example_clock i = 100 + of_nat i"

text \<open>A running child process with an open pipe and nothing written yet, and one that
  is not running.\<close>

definition example_program :: Program where
  "example_program = \<lparr>running = True, stdin_pipe_1 = 5, stdin_data = []\<rparr>"

definition stopped_program :: Program where
  "stopped_program = \<lparr>running = False, stdin_pipe_1 = - 1, stdin_data = []\<rparr>"

text \<open>A player list with one forbidden rule, \<open>killall\<close> with a permanent ban, no
  known player, no ban, a running child process, and no files yet.\<close>

definition example_player_list :: PlayerList where
  "example_player_list =
     \<lparr>all_players = [], online_players = [], banned_players = [],
      forbidden_commands = [\<lparr>fc_command = ''killall'', ban_hours = 0\<rparr>],
      program = example_program,
      player_file = None, banned_file = None, forbidden_file = None\<rparr>"


text \<open>
  Two lists of bans. In the first, Alice is banned for a day from the second
  1700000000 on, and Bob for ever; all times are whole seconds. In the second, Alice's
  ban time is one nanosecond after that second, as a reading of the clock is.
\<close>

definition example_ban_list :: PlayerList where
  "example_ban_list =
     example_player_list
       \<lparr>banned_players :=
          [(''Alice'', \<lparr>bp_name = ''Alice'', bp_reason = ''grief'',
                       ban_time = 1700000000000000000, unban_time = 1700086400000000000,
                       is_permanent = False\<rparr>),
           (''Bob'', \<lparr>bp_name = ''Bob'', bp_reason = ''tnt'',
                     ban_time = 1700000000000000000, unban_time = time_point_max,
                     is_permanent = True\<rparr>)]\<rparr>"

definition subsecond_ban_list :: PlayerList where
  "subsecond_ban_list =
     example_player_list
       \<lparr>banned_players :=
          [(''Alice'', \<lparr>bp_name = ''Alice'', bp_reason = ''grief'',
                       ban_time = 1700000000000000001, unban_time = 1700086400000000000,
                       is_permanent = False\<rparr>)]\<rparr>"

text \<open>
  The reason that \<open>process_log_line\<close> gives to a permanent ban for the command
  \<open>kill all |\<close>, a command that ends with the character the ban file uses to separate
  its fields: the part up to that character, the part after it, and the whole. Then
  the player list after the ban of Alice with that reason at the clock reading
  1700000000000000000, as the log line of \<open>separator_line\<close> causes it.
\<close>

definition separator_reason_head :: string where
  "separator_reason_head = msg_forbidden_command @ ''kill all ''"

definition separator_reason_tail :: string where
  "separator_reason_tail = msg_will_be @ msg_banned_forever @ msg_appeal"

definition separator_reason :: string where
  "separator_reason = separator_reason_head @ ''|'' @ separator_reason_tail"

definition separator_line :: string where
  "separator_line = ''[12:35:00] [Server thread/INFO]: Alice issued server command: /kill all |''"

definition separator_ban_list :: PlayerList where
  "separator_ban_list =
     snd (ban utc_env 1700000000000000000 ''Alice'' separator_reason 0 example_player_list)"
section \<open>Properties of the Buffer\<close>

lemma index_of_None: "index_of c s = None \<longleftrightarrow> c \<notin> set s"
  by (induction s) auto

lemma index_of_Some:
  "index_of c s = Some i \<Longrightarrow> i < length s \<and> s ! i = c \<and> c \<notin> set (take i s)"
  by (induction s arbitrary: i) (auto split: if_splits)

lemma index_of_mem: "index_of c s = Some i \<Longrightarrow> c \<in> set s"
  using index_of_None[of c s] by auto

lemma unread_append_str: "buffer_wf b \<Longrightarrow> unread (append_str d b) = unread b @ d"
  by (simp add: unread_def append_str_def buffer_wf_def)

lemma wf_append_str: "buffer_wf b \<Longrightarrow> buffer_wf (append_str d b)"
  by (simp add: append_str_def buffer_wf_def)

lemma unread_append_n:
  "buffer_wf b \<Longrightarrow> unread (append_n d n b) = unread b @ appended_by (AppendN d n)"
  by (cases d) (simp_all add: unread_def append_n_def buffer_wf_def)

lemma wf_append_n: "buffer_wf b \<Longrightarrow> buffer_wf (append_n d n b)"
  by (cases d) (simp_all add: append_n_def buffer_wf_def)

text \<open>Without a newline in the unread residue, \<open>read_line\<close> returns the empty string
  and changes nothing.\<close>

lemma read_line_none: "newline \<notin> set (unread b) \<Longrightarrow> read_line b = ([], b)"
  by (auto simp: read_line_def unread_def find_char_def split: option.splits
      dest: index_of_mem)

text \<open>With one, it returns the bytes up to and including the first newline, and the
  residue is what followed them, whether or not the buffer was compacted.\<close>

lemma read_line_some:
  assumes "newline \<in> set (unread b)"
  shows "\<exists>l. fst (read_line b) = l @ [newline] \<and> newline \<notin> set l \<and>
     unread b = l @ [newline] @ unread (snd (read_line b)) \<and> buffer_wf (snd (read_line b))"
proof -
  let ?u = "drop (buffer_ptr b) (buffer b)"
  from assms have lt: "buffer_ptr b < length (buffer b)"
    by (cases "buffer_ptr b < length (buffer b)") (auto simp: unread_def)
  from assms obtain i where i: "index_of newline ?u = Some i"
    using index_of_None[of newline "unread b"] by (auto simp: unread_def)
  note so = index_of_Some[OF i]
  have t: "take (Suc i) ?u = take i ?u @ [newline]"
    using so by (simp add: take_Suc_conv_app_nth)
  have u: "?u = take (Suc i) ?u @ drop (Suc i) ?u"
    by (rule append_take_drop_id[symmetric])
  have d: "drop (Suc i) ?u = drop (Suc (buffer_ptr b + i)) (buffer b)"
    by (simp add: add.commute)
  have fst: "fst (read_line b) = take (Suc i) ?u"
    using lt i by (simp add: read_line_def find_char_def Let_def substr_def)
  have snd: "unread (snd (read_line b)) = drop (Suc i) ?u"
    using lt i d
    by (simp add: read_line_def find_char_def Let_def substr_from_def unread_def)
  have wf: "buffer_wf (snd (read_line b))"
    using lt i so
    by (auto simp: read_line_def find_char_def Let_def substr_from_def buffer_wf_def)
  show ?thesis
    apply (rule exI[of _ "take i ?u"])
    using fst snd wf t u so by (simp add: unread_def)
qed

lemma read_line_empty_iff:
  "fst (read_line b) = [] \<longleftrightarrow> newline \<notin> set (unread b)"
  using read_line_none[of b] read_line_some[of b] by auto

text \<open>An invariant of every run: what was returned, followed by the residue, is the
  initial residue followed by what was appended; and every returned line is empty or is
  one line, ended by its only newline.\<close>

lemma run_ops_inv:
  "buffer_wf b \<Longrightarrow>
   concat (fst (run_ops b ops)) @ unread (snd (run_ops b ops)) = unread b @ appended ops
   \<and> buffer_wf (snd (run_ops b ops))
   \<and> (\<forall>r \<in> set (fst (run_ops b ops)).
        r = [] \<or> (\<exists>l. r = l @ [newline] \<and> newline \<notin> set l))"
proof (induction b ops rule: run_ops.induct)
  case (1 b)
  then show ?case by (simp add: appended_def)
next
  case (2 b d ops)
  then show ?case
    using unread_append_str[of b d] wf_append_str[of b d] by (simp add: appended_def)
next
  case (3 b d n ops)
  then show ?case
    using unread_append_n[of b d n] wf_append_n[of b d n] by (simp add: appended_def)
next
  case (4 b ops)
  obtain r b1 where rl: "read_line b = (r, b1)"
    by (cases "read_line b")
  obtain rs b2 where ro: "run_ops b1 ops = (rs, b2)"
    by (cases "run_ops b1 ops")
  have step: "r @ unread b1 = unread b \<and> buffer_wf b1 \<and>
      (r = [] \<or> (\<exists>l. r = l @ [newline] \<and> newline \<notin> set l))"
  proof (cases "newline \<in> set (unread b)")
    case True
    from read_line_some[OF True] rl show ?thesis by auto
  next
    case False
    from read_line_none[OF False] rl "4.prems" show ?thesis by auto
  qed
  from "4.IH"[OF rl[symmetric] refl] step ro
  have "concat rs @ unread b2 = unread b1 @ appended ops \<and> buffer_wf b2
     \<and> (\<forall>r \<in> set rs. r = [] \<or> (\<exists>l. r = l @ [newline] \<and> newline \<notin> set l))"
    by simp
  with step rl ro show ?case
    by (simp add: appended_def)
qed

lemma concat_lines_end:
  "\<forall>r \<in> set rs. r = [] \<or> (\<exists>l. r = l @ [newline] \<and> newline \<notin> set l) \<Longrightarrow>
   concat rs = [] \<or> last (concat rs) = newline"
proof (induction rs)
  case Nil
  then show ?case by simp
next
  case (Cons r rs)
  then have ih: "concat rs = [] \<or> last (concat rs) = newline"
    and r: "r = [] \<or> (\<exists>l. r = l @ [newline])"
    by auto
  show ?case
  proof (cases "concat rs = []")
    case True
    with r show ?thesis by auto
  next
    case False
    with ih have "last (concat rs) = newline"
      by blast
    with last_appendR[OF False, of r] show ?thesis
      by simp
  qed
qed

lemma split_at_last_newline:
  assumes "p = [] \<or> last p = newline" and "newline \<notin> set u"
  shows "upto_last_newline (p @ u) = p \<and> after_last_newline (p @ u) = u"
proof -
  have tw: "takeWhile (\<lambda>c. c \<noteq> newline) (rev u @ rev p) = rev u"
    using assms by (cases p rule: rev_cases) (auto simp: takeWhile_append)
  have dw: "dropWhile (\<lambda>c. c \<noteq> newline) (rev u @ rev p) = rev p"
    using assms by (cases p rule: rev_cases) (auto simp: dropWhile_append)
  show ?thesis
    using tw dw by (simp add: upto_last_newline_def after_last_newline_def)
qed

lemma buffer_wf_new: "buffer_wf (Buffer_new m)"
  by (simp add: buffer_wf_def Buffer_new_def)

lemma unread_new: "unread (Buffer_new m) = []"
  by (simp add: unread_def Buffer_new_def)

text \<open>
  Claim C1, as stated, fails: the lines returned so far need not reach the last newline
  appended. After \<open>a\<newline>b\<newline>\<close> is appended to a new buffer and
  \<open>read_line\<close> is called once, the only line returned is \<open>a\<newline>\<close>, while the
  appended bytes up to and including their last newline are \<open>a\<newline>b\<newline>\<close>.
\<close>

theorem C1_counterexample:
  "concat (fst (run_ops Buffer_default
                  [Append (''a'' @ [newline] @ ''b'' @ [newline]), ReadLine]))
   \<noteq> upto_last_newline (appended [Append (''a'' @ [newline] @ ''b'' @ [newline]), ReadLine])"
  by (simp add: Buffer_default_def Buffer_new_def append_str_def read_line_def
      find_char_def substr_def substr_from_def appended_def upto_last_newline_def
      newline_def)

text \<open>
  Claim C1, amended. For every sequence of \<open>append\<close> and \<open>read_line\<close> operations on
  a new buffer, with any compaction threshold: the concatenation of the lines returned,
  followed by the unread residue, is the concatenation of all appended bytes (so neither
  reading nor compaction alters the unread bytes), and the concatenation of the lines
  returned is empty or ends with a newline: it is the appended bytes up to and including
  the last newline read, and the residue is the appended bytes after it. Whenever every
  complete line has been consumed, that is, when a further \<open>read_line\<close> would return
  the empty string, that newline is the last one contained in the appended bytes.
\<close>

theorem C1_read_line_trace:
  assumes "run_ops (Buffer_new m) ops = (lines, b)"
  shows "concat lines @ unread b = appended ops \<and>
         (concat lines = [] \<or> last (concat lines) = newline) \<and>
         (fst (read_line b) = [] \<longrightarrow>
            concat lines = upto_last_newline (appended ops) \<and>
            unread b = after_last_newline (appended ops))"
proof -
  from run_ops_inv[OF buffer_wf_new, of m ops] assms
  have eq: "concat lines @ unread b = appended ops"
    and ls: "\<forall>r \<in> set lines. r = [] \<or> (\<exists>l. r = l @ [newline] \<and> newline \<notin> set l)"
    by (simp_all add: unread_new)
  have "concat lines = upto_last_newline (appended ops) \<and>
        unread b = after_last_newline (appended ops)"
    if "fst (read_line b) = []"
  proof -
    from that have "newline \<notin> set (unread b)"
      by (simp add: read_line_empty_iff)
    from split_at_last_newline[OF concat_lines_end[OF ls] this] eq
    show ?thesis by simp
  qed
  with eq concat_lines_end[OF ls] show ?thesis by blast
qed

theorem C1_read_line_trace_witness:
  "run_ops (Buffer_new 4)
     [Append (''ab'' @ [newline] @ ''c''), ReadLine, Append (''d'' @ [newline] @ ''e''),
      ReadLine, ReadLine]
   = ([''ab'' @ [newline], ''cd'' @ [newline], []],
      \<lparr>MAX_DELETED_BUFFER_SIZE = 4, buffer = ''e'', buffer_ptr = 0\<rparr>)
   \<and> fst (read_line \<lparr>MAX_DELETED_BUFFER_SIZE = 4, buffer = ''e'', buffer_ptr = 0\<rparr>) = []
   \<and> concat [''ab'' @ [newline], ''cd'' @ [newline], []]
       = upto_last_newline
           (appended [Append (''ab'' @ [newline] @ ''c''), ReadLine,
                      Append (''d'' @ [newline] @ ''e''), ReadLine, ReadLine])
   \<and> unread \<lparr>MAX_DELETED_BUFFER_SIZE = 4, buffer = ''e'', buffer_ptr = 0\<rparr>
       = after_last_newline
           (appended [Append (''ab'' @ [newline] @ ''c''), ReadLine,
                      Append (''d'' @ [newline] @ ''e''), ReadLine, ReadLine])"
proof -
  have run: "run_ops (Buffer_new 4)
     [Append (''ab'' @ [newline] @ ''c''), ReadLine, Append (''d'' @ [newline] @ ''e''),
      ReadLine, ReadLine]
   = ([''ab'' @ [newline], ''cd'' @ [newline], []],
      \<lparr>MAX_DELETED_BUFFER_SIZE = 4, buffer = ''e'', buffer_ptr = 0\<rparr>)"
    by (simp add: Buffer_new_def append_str_def read_line_def find_char_def substr_def
        substr_from_def newline_def)
  have empty: "fst (read_line \<lparr>MAX_DELETED_BUFFER_SIZE = 4, buffer = ''e'', buffer_ptr = 0\<rparr>) = []"
    by (simp add: read_line_def find_char_def newline_def)
  from C1_read_line_trace[OF run] empty run show ?thesis
    by blast
qed

text \<open>What a successful \<open>read_line\<close> does to the buffer: it compacts, in the same
  call, when the new read position is at least the threshold.\<close>

lemma read_line_compaction:
  assumes "buffer_ptr b < length (buffer b)"
    and "find_char (buffer b) newline (buffer_ptr b) = Some p"
  shows "snd (read_line b) =
           (if p + 1 \<ge> MAX_DELETED_BUFFER_SIZE b
            then b\<lparr>buffer := drop (p + 1) (buffer b), buffer_ptr := 0\<rparr>
            else b\<lparr>buffer_ptr := p + 1\<rparr>)"
  using assms by (simp add: read_line_def Let_def substr_from_def)

text \<open>
  Claim C8. The claim says that when a \<open>read_line\<close> leaves the consumed prefix exactly
  as long as the threshold, the buffer is compacted by the next read and not by that
  one, which is what the comments of the source say (the consumed part is compacted
  when it is larger than the threshold). The code tests \<open>buffer_ptr_ >=
  MAX_DELETED_BUFFER_SIZE\<close>: with the threshold 4 and the unread bytes
  \<open>abc\<newline>xyz\<close>, the first \<open>read_line\<close> moves the read position to 4 and
  compacts in that same call.
\<close>

theorem C8_compacts_in_same_read:
  "read_line \<lparr>MAX_DELETED_BUFFER_SIZE = 4, buffer = ''abc'' @ [newline] @ ''xyz'',
              buffer_ptr = 0\<rparr>
   = (''abc'' @ [newline],
      \<lparr>MAX_DELETED_BUFFER_SIZE = 4, buffer = ''xyz'', buffer_ptr = 0\<rparr>)"
  by (simp add: read_line_def find_char_def substr_def substr_from_def newline_def)

section \<open>Properties of the CommandRequestManager\<close>

text \<open>
  Claim C2. \<open>vote\<close> returns 0, 1, 2 or 3. When it returns 0 the request existed, the
  IP had not voted, the request's record afterwards is the old one with the IP added to
  its voted IPs and nothing else changed, its vote count is larger by exactly one, and
  every other request and the rest of the manager are unchanged. When it returns
  anything else, the whole state is unchanged.
\<close>

theorem C2_vote_effect:
  assumes "vote request_id ip m = (code, m')"
  shows "code \<in> {0, 1, 2, 3} \<and>
     (code = 0 \<longrightarrow>
        (\<exists>req. map_of (requests m) request_id = Some req \<and> ip |\<notin>| voted_ips req \<and>
           map_of (requests m') request_id =
             Some (req\<lparr>voted_ips := finsert ip (voted_ips req)\<rparr>) \<and>
           vote_count (req\<lparr>voted_ips := finsert ip (voted_ips req)\<rparr>) = vote_count req + 1) \<and>
        (\<forall>k. k \<noteq> request_id \<longrightarrow> map_of (requests m') k = map_of (requests m) k) \<and>
        vote_threshold m' = vote_threshold m \<and>
        execute_callback_set m' = execute_callback_set m) \<and>
     (code \<noteq> 0 \<longrightarrow> m' = m)"
  using assms
  by (auto simp: vote_def vote_count_def update_conv' fcard_finsert_disjoint
      split: option.splits if_splits)

theorem C2_vote_effect_witness:
  "fst (vote ''r2'' ''1.2.3.5'' example_manager) = 0 \<and>
   map_option vote_count (map_of (requests example_manager) ''r2'') = Some 1 \<and>
   map_option vote_count
     (map_of (requests (snd (vote ''r2'' ''1.2.3.5'' example_manager))) ''r2'') = Some 2 \<and>
   map_of (requests (snd (vote ''r2'' ''1.2.3.5'' example_manager))) ''r1''
     = map_of (requests example_manager) ''r1'' \<and>
   fst (vote ''r2'' ''1.2.3.4'' example_manager) = 1 \<and>
   snd (vote ''r2'' ''1.2.3.4'' example_manager) = example_manager"
proof -
  have ok: "fst (vote ''r2'' ''1.2.3.5'' example_manager) = 0"
    by (simp add: vote_def example_manager_def example_request_def)
  have dup: "fst (vote ''r2'' ''1.2.3.4'' example_manager) = 1"
    by (simp add: vote_def example_manager_def example_request_def)
  have before: "map_option vote_count (map_of (requests example_manager) ''r2'') = Some 1"
    by (simp add: example_manager_def example_request_def vote_count_def fcard_finsert_if
        fcard_fempty)
  from C2_vote_effect[OF surjective_pairing, of "''r2''" "''1.2.3.5''" example_manager] ok before
  have after: "map_option vote_count
     (map_of (requests (snd (vote ''r2'' ''1.2.3.5'' example_manager))) ''r2'') = Some 2"
    and other: "map_of (requests (snd (vote ''r2'' ''1.2.3.5'' example_manager))) ''r1''
     = map_of (requests example_manager) ''r1''"
    by auto
  from C2_vote_effect[OF surjective_pairing, of "''r2''" "''1.2.3.4''" example_manager] dup
  have same: "snd (vote ''r2'' ''1.2.3.4'' example_manager) = example_manager"
    by simp
  from ok before after other dup same show ?thesis
    by simp
qed

text \<open>
  Claim C9. The checks of \<open>vote\<close> have a fixed priority: a missing request gives 2
  whatever the IP; an existing, executed request gives 3, also when the IP has voted
  for it; only then a duplicate IP gives 1; otherwise the result is 0.
\<close>

theorem C9_vote_priority:
  "(map_of (requests m) request_id = None \<longrightarrow> fst (vote request_id ip m) = 2) \<and>
   (\<forall>req. map_of (requests m) request_id = Some req \<and> executed req \<longrightarrow>
      fst (vote request_id ip m) = 3) \<and>
   (\<forall>req. map_of (requests m) request_id = Some req \<and> \<not> executed req \<and>
          ip |\<in>| voted_ips req \<longrightarrow>
      fst (vote request_id ip m) = 1) \<and>
   (\<forall>req. map_of (requests m) request_id = Some req \<and> \<not> executed req \<and>
          ip |\<notin>| voted_ips req \<longrightarrow>
      fst (vote request_id ip m) = 0)"
  by (auto simp: vote_def)

theorem C9_vote_priority_witness:
  "map_of (requests example_manager) ''r3''
     = Some (example_request ''r3'' ''/stop'' {|''1.2.3.4'', ''1.2.3.5'', ''1.2.3.6''|} True) \<and>
   ''1.2.3.4'' |\<in>| {|''1.2.3.4'', ''1.2.3.5'', ''1.2.3.6''|} \<and>
   fst (vote ''r3'' ''1.2.3.4'' example_manager) = 3 \<and>
   map_of (requests example_manager) ''r9'' = None \<and>
   fst (vote ''r9'' ''1.2.3.4'' example_manager) = 2"
proof -
  have r3: "map_of (requests example_manager) ''r3''
     = Some (example_request ''r3'' ''/stop'' {|''1.2.3.4'', ''1.2.3.5'', ''1.2.3.6''|} True)"
    by (simp add: example_manager_def)
  have ex: "executed (example_request ''r3'' ''/stop'' {|''1.2.3.4'', ''1.2.3.5'', ''1.2.3.6''|} True)"
    by (simp add: example_request_def)
  have r9: "map_of (requests example_manager) ''r9'' = None"
    by (simp add: example_manager_def)
  from C9_vote_priority[of example_manager "''r3''" "''1.2.3.4''"] r3 ex
  have c3: "fst (vote ''r3'' ''1.2.3.4'' example_manager) = 3"
    by blast
  from C9_vote_priority[of example_manager "''r9''" "''1.2.3.4''"] r9
  have c2: "fst (vote ''r9'' ''1.2.3.4'' example_manager) = 2"
    by blast
  from r3 r9 c3 c2 show ?thesis
    by simp
qed

text \<open>The loop of \<open>check_and_execute\<close> keeps the keys, collects the ready requests
  in iteration order, and marks exactly them.\<close>

lemma check_loop_keys:
  "check_loop thr clk i reqs = (reqs', ex) \<Longrightarrow> map fst reqs' = map fst reqs"
  by (induction thr clk i reqs arbitrary: reqs' ex rule: check_loop.induct)
     (auto simp: Let_def split: if_splits prod.splits)

lemma check_loop_calls:
  "check_loop thr clk i reqs = (reqs', ex) \<Longrightarrow>
     map (\<lambda>r. (command r, applicant r)) ex =
       map (\<lambda>r. (command r, applicant r)) (filter (ready thr) (map snd reqs)) \<and>
     length ex = length (filter (ready thr) (map snd reqs))"
  by (induction thr clk i reqs arbitrary: reqs' ex rule: check_loop.induct)
     (auto simp: Let_def ready_def split: if_splits prod.splits)

lemma check_loop_map_of:
  "check_loop thr clk i reqs = (reqs', ex) \<Longrightarrow> distinct (map fst reqs) \<Longrightarrow>
   (k, r) \<in> set reqs \<Longrightarrow>
     (ready thr r \<longrightarrow> (\<exists>j. i \<le> j \<and> j < i + length ex \<and>
         map_of reqs' k = Some (r\<lparr>executed := True, executed_at := clk j\<rparr>))) \<and>
     (\<not> ready thr r \<longrightarrow> map_of reqs' k = Some r)"
proof (induction reqs arbitrary: i reqs' ex)
  case Nil
  then show ?case by simp
next
  case (Cons p rest)
  obtain k0 req where p: "p = (k0, req)"
    by (cases p)
  show ?case
  proof (cases "ready thr req")
    case True
    obtain rest1 ex1 where cl: "check_loop thr clk (Suc i) rest = (rest1, ex1)"
      by (cases "check_loop thr clk (Suc i) rest")
    from True cl Cons.prems(1) p
    have res: "reqs' = (k0, req\<lparr>executed := True, executed_at := clk i\<rparr>) # rest1"
      "ex = req\<lparr>executed := True, executed_at := clk i\<rparr> # ex1"
      by (auto simp: ready_def Let_def)
    show ?thesis
    proof (cases "(k, r) = (k0, req)")
      case True
      with res \<open>ready thr req\<close> show ?thesis by auto
    next
      case False
      with Cons.prems p have mem: "(k, r) \<in> set rest" and ne: "k \<noteq> k0"
        and d: "distinct (map fst rest)"
        by (auto simp: rev_image_eqI)
      from Cons.IH[OF cl d mem] res ne show ?thesis
        by (auto intro: Suc_leD)
    qed
  next
    case False
    obtain rest1 ex1 where cl: "check_loop thr clk i rest = (rest1, ex1)"
      by (cases "check_loop thr clk i rest")
    from False cl Cons.prems(1) p
    have res: "reqs' = (k0, req) # rest1" "ex = ex1"
      by (auto simp: ready_def Let_def)
    show ?thesis
    proof (cases "(k, r) = (k0, req)")
      case True
      with res \<open>\<not> ready thr req\<close> show ?thesis by auto
    next
      case False
      with Cons.prems p have mem: "(k, r) \<in> set rest" and ne: "k \<noteq> k0"
        and d: "distinct (map fst rest)"
        by (auto simp: rev_image_eqI)
      from Cons.IH[OF cl d mem] res ne show ?thesis
        by auto
    qed
  qed
qed

text \<open>
  Claim C3. Let one pass of \<open>check_and_execute\<close> run on a manager whose map has each
  id once and which has an execute callback. The calls made to the callback are, in
  iteration order, exactly one call \<open>(command, applicant)\<close> for each request that was
  unexecuted with at least \<open>vote_threshold\<close> votes before the pass, and no other call.
  Each such request is afterwards the same record marked \<open>executed = true\<close>, with
  \<open>executed_at\<close> a reading of the clock taken during the pass; every other request is
  unchanged; no request is added or removed.
\<close>

theorem C3_check_and_execute:
  assumes "distinct (map fst (requests m))"
    and "execute_callback_set m"
    and "check_and_execute clock m = (m', calls)"
  shows "calls = map (\<lambda>req. (command req, applicant req))
                   (filter (ready (vote_threshold m)) (map snd (requests m))) \<and>
         (\<forall>(k, req) \<in> set (requests m).
            (ready (vote_threshold m) req \<longrightarrow>
               (\<exists>j < length calls.
                  map_of (requests m') k =
                    Some (req\<lparr>executed := True, executed_at := clock j\<rparr>))) \<and>
            (\<not> ready (vote_threshold m) req \<longrightarrow> map_of (requests m') k = Some req)) \<and>
         map fst (requests m') = map fst (requests m)"
proof -
  obtain reqs1 ex where cl: "check_loop (vote_threshold m) clock 0 (requests m) = (reqs1, ex)"
    by (cases "check_loop (vote_threshold m) clock 0 (requests m)")
  with assms have m': "requests m' = reqs1"
    and calls: "calls = map (\<lambda>req. (command req, applicant req)) ex"
    by (auto simp: check_and_execute_def)
  from check_loop_calls[OF cl] calls
  have c1: "calls = map (\<lambda>req. (command req, applicant req))
                   (filter (ready (vote_threshold m)) (map snd (requests m)))"
    and len: "length calls = length ex"
    by simp_all
  have c2: "(ready (vote_threshold m) req \<longrightarrow>
               (\<exists>j < length calls.
                  map_of (requests m') k =
                    Some (req\<lparr>executed := True, executed_at := clock j\<rparr>))) \<and>
            (\<not> ready (vote_threshold m) req \<longrightarrow> map_of (requests m') k = Some req)"
    if "(k, req) \<in> set (requests m)" for k req
    using check_loop_map_of[OF cl assms(1) that] m' len by auto
  from c1 c2 check_loop_keys[OF cl] m' show ?thesis
    by auto
qed

theorem C3_check_and_execute_witness:
  "distinct (map fst (requests example_manager)) \<and>
   execute_callback_set example_manager \<and>
   snd (check_and_execute example_clock example_manager) = [(''/say hi'', ''alice'')] \<and>
   map_of (requests (fst (check_and_execute example_clock example_manager))) ''r1''
     = Some ((example_request ''r1'' ''/say hi'' {|''1.2.3.4'', ''1.2.3.5''|} False)
               \<lparr>executed := True, executed_at := 100\<rparr>) \<and>
   map_of (requests (fst (check_and_execute example_clock example_manager))) ''r2''
     = Some (example_request ''r2'' ''/list'' {|''1.2.3.4''|} False) \<and>
   map_of (requests (fst (check_and_execute example_clock example_manager))) ''r3''
     = Some (example_request ''r3'' ''/stop'' {|''1.2.3.4'', ''1.2.3.5'', ''1.2.3.6''|} True)"
proof -
  have d: "distinct (map fst (requests example_manager))"
    by (simp add: example_manager_def)
  have cb: "execute_callback_set example_manager"
    by (simp add: example_manager_def)
  have thr: "vote_threshold example_manager = 2"
    by (simp add: example_manager_def)
  have r1: "ready 2 (example_request ''r1'' ''/say hi'' {|''1.2.3.4'', ''1.2.3.5''|} False)"
    by (simp add: ready_def example_request_def vote_count_def fcard_finsert_if fcard_fempty)
  have r2: "\<not> ready 2 (example_request ''r2'' ''/list'' {|''1.2.3.4''|} False)"
    by (simp add: ready_def example_request_def vote_count_def fcard_finsert_if fcard_fempty)
  have r3: "\<not> ready 2 (example_request ''r3'' ''/stop''
                          {|''1.2.3.4'', ''1.2.3.5'', ''1.2.3.6''|} True)"
    by (simp add: ready_def example_request_def)
  have reqs: "requests example_manager =
      [(''r1'', example_request ''r1'' ''/say hi'' {|''1.2.3.4'', ''1.2.3.5''|} False),
       (''r2'', example_request ''r2'' ''/list'' {|''1.2.3.4''|} False),
       (''r3'', example_request ''r3'' ''/stop'' {|''1.2.3.4'', ''1.2.3.5'', ''1.2.3.6''|}
                  True)]"
    by (simp add: example_manager_def)
  let ?m' = "fst (check_and_execute example_clock example_manager)"
  let ?calls = "snd (check_and_execute example_clock example_manager)"
  from C3_check_and_execute[OF d cb surjective_pairing, of example_clock]
  have A: "?calls = map (\<lambda>req. (command req, applicant req))
                   (filter (ready 2) (map snd (requests example_manager)))"
    and B: "\<And>k req. (k, req) \<in> set (requests example_manager) \<Longrightarrow>
            (ready 2 req \<longrightarrow>
               (\<exists>j < length ?calls.
                  map_of (requests ?m') k =
                    Some (req\<lparr>executed := True, executed_at := example_clock j\<rparr>))) \<and>
            (\<not> ready 2 req \<longrightarrow> map_of (requests ?m') k = Some req)"
    unfolding thr by blast+
  from A reqs r1 r2 r3 have calls: "?calls = [(''/say hi'', ''alice'')]"
    by (simp add: example_request_def)
  from B[of "''r1''" "example_request ''r1'' ''/say hi'' {|''1.2.3.4'', ''1.2.3.5''|} False"]
    reqs r1 calls
  have m1: "map_of (requests ?m') ''r1''
     = Some ((example_request ''r1'' ''/say hi'' {|''1.2.3.4'', ''1.2.3.5''|} False)
               \<lparr>executed := True, executed_at := 100\<rparr>)"
    by (simp add: example_clock_def)
  from B[of "''r2''" "example_request ''r2'' ''/list'' {|''1.2.3.4''|} False"] reqs r2
  have m2: "map_of (requests ?m') ''r2''
     = Some (example_request ''r2'' ''/list'' {|''1.2.3.4''|} False)"
    by simp
  from B[of "''r3''" "example_request ''r3'' ''/stop''
                        {|''1.2.3.4'', ''1.2.3.5'', ''1.2.3.6''|} True"] reqs r3
  have m3: "map_of (requests ?m') ''r3''
     = Some (example_request ''r3'' ''/stop'' {|''1.2.3.4'', ''1.2.3.5'', ''1.2.3.6''|} True)"
    by simp
  from d cb calls m1 m2 m3 show ?thesis
    by simp
qed

text \<open>\<open>std::string::find\<close> at position 0 against prefixes and contiguous
  sublists.\<close>

lemma find_sub_Some_0: "find_sub pat s = Some 0 \<longleftrightarrow> prefix pat s"
  by (cases s) auto

lemma find_sub_None: "find_sub pat s = None \<longleftrightarrow> \<not> sublist pat s"
  by (induction s) (auto simp: sublist_Cons_right)

lemma find_sub_found: "find_sub pat s \<noteq> None \<longleftrightarrow> sublist pat s"
  by (simp add: find_sub_None)

lemma find_str_0: "find_str s pat 0 = find_sub pat s"
  by (cases "find_sub pat s") (simp_all add: find_str_def)

lemma strip_slash_eq:
  "(if s \<noteq> [] \<and> hd s = CHR ''/'' then substr_from s 1 else s) = drop_leading_slash s"
  by (cases s) (simp_all add: drop_leading_slash_def substr_from_def)

text \<open>The case folding of the specification against \<open>::tolower\<close>: the letters
  \<open>A\<close> to \<open>Z\<close> are the characters with the codes 65 to 90, and each is sent to the
  character 32 places further on.\<close>

lemma upper_codes_list: "map of_char upper_case_letters = [65..<(91::nat)]"
  by (simp add: upper_case_letters_def)

lemma upper_case_range:
  "c \<in> set upper_case_letters \<longleftrightarrow> 65 \<le> (of_char c :: nat) \<and> (of_char c :: nat) \<le> 90"
proof -
  have "c \<in> set upper_case_letters \<longleftrightarrow>
        (of_char c :: nat) \<in> of_char ` set upper_case_letters"
    by (simp add: inj_image_mem_iff inj_on_def)
  also have "(of_char ` set upper_case_letters :: nat set) = set (map of_char upper_case_letters)"
    by simp
  also have "\<dots> = set [65..<(91::nat)]"
    by (simp only: upper_codes_list)
  finally have F: "c \<in> set upper_case_letters \<longleftrightarrow> (of_char c :: nat) \<in> set [65..<91]" .
  show ?thesis
    by (simp only: F set_upt atLeastLessThan_iff) arith
qed

lemma case_fold_upper_all:
  "list_all (\<lambda>c. (of_char (case_fold_char c) :: nat) = of_char c + 32 \<and>
                  c \<notin> set blank_and_tab \<and> case_fold_char c \<notin> set blank_and_tab)
     upper_case_letters"
  by (simp add: case_fold_char_def upper_case_letters_def lower_case_letters_def
      blank_and_tab_def)

lemma case_fold_upper:
  assumes "c \<in> set upper_case_letters"
  shows "case_fold_char c = char_of (of_char c + (32 :: nat))"
    and "c \<notin> set blank_and_tab" and "case_fold_char c \<notin> set blank_and_tab"
proof -
  from assms case_fold_upper_all
  have a: "(of_char (case_fold_char c) :: nat) = of_char c + 32"
    and b: "c \<notin> set blank_and_tab" and c: "case_fold_char c \<notin> set blank_and_tab"
    unfolding list_all_iff by blast+
  have "case_fold_char c = char_of (of_char (case_fold_char c) :: nat)"
    by simp
  with a show "case_fold_char c = char_of (of_char c + (32 :: nat))"
    by simp
  from b show "c \<notin> set blank_and_tab" .
  from c show "case_fold_char c \<notin> set blank_and_tab" .
qed

lemma case_fold_other:
  "c \<notin> set upper_case_letters \<Longrightarrow> case_fold_char c = c"
proof -
  assume "c \<notin> set upper_case_letters"
  then have "c \<notin> set (map fst (zip upper_case_letters lower_case_letters))"
    by (simp add: upper_case_letters_def lower_case_letters_def)
  then have "map_of (zip upper_case_letters lower_case_letters) c = None"
    by (simp only: map_of_eq_None_iff set_map not_False_eq_True)
  then show ?thesis
    by (simp add: case_fold_char_def)
qed

lemma tolower_case_fold: "tolower c = case_fold_char c"
proof (cases "c \<in> set upper_case_letters")
  case True
  then have "65 \<le> (of_char c :: nat) \<and> (of_char c :: nat) \<le> 90"
    by (simp only: upper_case_range)
  then have "tolower c = char_of (of_char c + (32 :: nat))"
    by (simp add: tolower_def Let_def)
  with case_fold_upper(1)[OF True] show ?thesis
    by simp
next
  case False
  then have "\<not> (65 \<le> (of_char c :: nat) \<and> (of_char c :: nat) \<le> 90)"
    by (simp only: upper_case_range not_False_eq_True)
  then have "tolower c = c"
    by (auto simp add: tolower_def Let_def)
  with case_fold_other[OF False] show ?thesis
    by simp
qed

lemma to_lower_case_fold: "to_lower s = case_fold s"
  by (simp add: to_lower_def case_fold_def tolower_case_fold)

lemma case_fold_keeps_blank_tab:
  "(case_fold_char c \<notin> set blank_and_tab) = (c \<noteq> CHR 0x20 \<and> c \<noteq> CHR 0x09)"
proof (cases "c \<in> set upper_case_letters")
  case True
  from case_fold_upper(2)[OF True] case_fold_upper(3)[OF True] show ?thesis
    by (simp add: blank_and_tab_def)
next
  case False
  from case_fold_other[OF False] show ?thesis
    by (simp add: blank_and_tab_def)
qed

lemma strip_case_fold:
  "strip_chars blank_and_tab (case_fold s) = to_lower (remove_spaces s)"
  by (induction s)
     (simp_all add: strip_chars_def case_fold_def to_lower_def remove_spaces_def
        case_fold_keeps_blank_tab tolower_case_fold)

text \<open>The source's test, with \<open>std::string::find\<close> read as prefix and sublist.\<close>

lemma is_self_pardon_unfolded:
  "is_self_pardon a c =
     (prefix ''pardon'' (drop_leading_slash (to_lower (remove_spaces c))) \<and>
      sublist (to_lower a) (drop 6 (drop_leading_slash (to_lower (remove_spaces c)))))"
  by (simp add: is_self_pardon_def Let_def strip_slash_eq find_str_0 find_sub_Some_0
      substr_from_def find_sub_found del: not_None_eq)

text \<open>
  Claim C7, as stated, fails. The source strips spaces and tabs only, not white space:
  for the applicant \<open>Bob\<close> and the command \<open>/pardon bob\<close> with a line feed before it,
  the test of the specification (white space stripped) is true, and \<open>is_self_pardon\<close>
  is false, because the line feed stays in front of the slash.
\<close>

theorem C7_counterexample:
  "is_self_pardon_spec ''Bob'' (newline # ''/pardon bob'') \<and>
   \<not> is_self_pardon ''Bob'' (newline # ''/pardon bob'')"
  by code_simp

text \<open>
  Claim C7, amended. For every applicant and command, \<open>is_self_pardon\<close> case-folds the
  command (the letters \<open>A\<close> to \<open>Z\<close>), strips its spaces and horizontal tabs (no other
  white space), drops a leading slash, and is true exactly when the result begins with
  \<open>pardon\<close> and the remainder after \<open>pardon\<close> contains the case-folded applicant as a
  substring. It is true for \<open>Bob\<close> and \<open>/pardon bob\<close>, and false for \<open>Bob\<close> and
  \<open>/pardon carol\<close>.
\<close>

theorem C7_is_self_pardon:
  "is_self_pardon a c = is_self_pardon_blank_tab a c \<and>
   is_self_pardon ''Bob'' ''/pardon bob'' \<and>
   \<not> is_self_pardon ''Bob'' ''/pardon carol''"
proof -
  have spec: "is_self_pardon_blank_tab a c =
      (prefix ''pardon'' (drop_leading_slash (to_lower (remove_spaces c))) \<and>
       sublist (to_lower a) (drop 6 (drop_leading_slash (to_lower (remove_spaces c)))))"
    by (simp add: is_self_pardon_blank_tab_def self_pardon_text_def Let_def strip_case_fold
        to_lower_case_fold eval_nat_numeral)
  have ex1: "is_self_pardon ''Bob'' ''/pardon bob''"
    by code_simp
  have ex2: "\<not> is_self_pardon ''Bob'' ''/pardon carol''"
    by code_simp
  from is_self_pardon_unfolded[of a c] spec ex1 ex2 show ?thesis
    by simp
qed
section \<open>Properties of the ServerManager\<close>

text \<open>
  Claim C10. When the supervisor is not running, \<open>execute_command\<close> leaves the state
  unchanged and sends nothing. When it is running, it passes the command without one
  leading slash (a second slash stays), followed by one newline, to \<open>send_string\<close>,
  and changes nothing else; with a running child and an open pipe these bytes are
  appended to what the child's standard input has received.
\<close>

theorem C10_execute_command:
  "(\<not> sm_running sm \<longrightarrow> execute_command c sm = sm) \<and>
   (sm_running sm \<longrightarrow>
      execute_command c sm =
        sm\<lparr>sm_program :=
             snd (send_string (drop_leading_slash c @ [newline]) (sm_program sm))\<rparr>) \<and>
   (sm_running sm \<and> running (sm_program sm) \<and> stdin_pipe_1 (sm_program sm) \<noteq> - 1 \<longrightarrow>
      stdin_data (sm_program (execute_command c sm)) =
        stdin_data (sm_program sm) @ drop_leading_slash c @ [newline])"
  by (simp add: execute_command_def strip_slash_eq send_string_def)

theorem C10_execute_command_witness:
  "stdin_data (sm_program (execute_command ''//list''
       \<lparr>sm_running = True, sm_program = example_program\<rparr>)) = ''/list'' @ [newline] \<and>
   stdin_data (sm_program (execute_command ''list''
       \<lparr>sm_running = True, sm_program = example_program\<rparr>)) = ''list'' @ [newline] \<and>
   execute_command ''/list'' \<lparr>sm_running = False, sm_program = example_program\<rparr>
     = \<lparr>sm_running = False, sm_program = example_program\<rparr>"
  using C10_execute_command[of "\<lparr>sm_running = True, sm_program = example_program\<rparr>" "''//list''"]
    C10_execute_command[of "\<lparr>sm_running = True, sm_program = example_program\<rparr>" "''list''"]
    C10_execute_command[of "\<lparr>sm_running = False, sm_program = example_program\<rparr>" "''/list''"]
  by (simp add: example_program_def drop_leading_slash_def send_string_def)


section \<open>Properties of ban\<close>

text \<open>The sentinel is the largest time point, and every other time point is strictly
  before it.\<close>

lemma sint_max: "sint time_point_max = 2 ^ 63 - 1"
  by (simp add: time_point_max_def)

lemma time_point_le_max: "(t :: time_point) \<le>s time_point_max"
  using sint_lt[of t] by (simp add: word_sle_eq sint_max)

lemma time_point_less_max: "t \<noteq> time_point_max \<Longrightarrow> (t :: time_point) <s time_point_max"
proof -
  assume ne: "t \<noteq> time_point_max"
  have "sint t \<noteq> sint time_point_max"
    using ne by (metis signed_word_eqI)
  with sint_lt[of t] show ?thesis
    by (simp add: word_sless_alt sint_max)
qed

text \<open>Adding hours to a time point gives the sum as a number, wrapped into the signed
  64-bit range; it is the sum itself whenever the sum is representable.\<close>

lemma hours_wrapped:
  fixes now :: time_point and h :: "64 word"
  shows "sint (now + hours_to_duration h)
         = signed_take_bit 63 (sint now + uint h * 3600000000000)"
proof -
  have "now + hours_to_duration h = word_of_int (sint now + uint h * 3600000000000)"
    by (simp add: hours_to_duration_def)
  then show ?thesis
    by (simp only: sint_sbintrunc') simp
qed

lemma hours_no_overflow:
  fixes now :: time_point and h :: "64 word"
  assumes "sint now + uint h * 3600000000000 < 2 ^ 63"
  shows "sint (now + hours_to_duration h) = sint now + uint h * 3600000000000"
proof -
  have a: "- 9223372036854775808 \<le> sint now"
    using sint_ge[of now] by simp
  have b: "0 \<le> uint h"
    by simp
  from a b have "- 9223372036854775808 \<le> sint now + uint h * 3600000000000"
    by linarith
  then have ge: "- (2 ^ 63) \<le> sint now + uint h * 3600000000000"
    by simp
  have "sint (now + hours_to_duration h)
        = signed_take_bit 63 (sint now + uint h * 3600000000000)"
    by (rule hours_wrapped)
  also have "\<dots> = sint now + uint h * 3600000000000"
    using ge assms by (rule signed_take_bit_int_eq_self)
  finally show ?thesis .
qed

text \<open>
  Claim C6, as stated, fails. The unban time is computed in the clock's signed 64-bit
  count of nanoseconds, and the sum of the ban time and the hours need not fit: a ban
  of 3000000 hours at the clock reading 1700000000000000001 stores an unban time that
  is not the ban time plus 3000000 hours, and that lies before the ban time.
\<close>

theorem C6_counterexample:
  "map_of (banned_players
       (snd (ban utc_env 1700000000000000001 ''Alice'' ''grief'' 3000000 example_player_list)))
     ''Alice''
     = Some \<lparr>bp_name = ''Alice'', bp_reason = ''grief'', ban_time = 1700000000000000001,
             unban_time = - 5946744073709551615, is_permanent = False\<rparr> \<and>
   sint (- 5946744073709551615 :: time_point)
     \<noteq> sint (1700000000000000001 :: time_point) + 3000000 * 3600000000000 \<and>
   (- 5946744073709551615 :: time_point) <s 1700000000000000001"
  by (simp add: ban_def Let_def save_files_def example_player_list_def hours_to_duration_def
      word_sless_alt)

text \<open>
  Claim C6, amended. For every player name, reason and number of hours, \<open>ban\<close>
  succeeds and upserts the record of that name (the records of other names are
  unchanged): the new record has the given name and reason and the clock reading as its
  ban time. With \<open>hours = 0\<close> it is permanent and its unban time is the sentinel
  \<open>time_point::max()\<close>, which is at least every time point and strictly after every
  other one. With \<open>hours > 0\<close> it is not permanent and its unban time is the ban time
  plus that many hours in the clock's signed 64-bit count of nanoseconds: the sum
  itself whenever the sum is below \<open>2^63\<close> nanoseconds, and the sum wrapped into the
  64-bit range otherwise. In both cases the line \<open>ban <name> <reason>\<close> with a newline
  is passed to \<open>send_string\<close>, which appends it to the child's standard input when the
  child is running and the pipe is open.
\<close>

theorem C6_ban:
  assumes "ban env now name why hours pl = (ok, pl')"
  shows "ok \<and>
     map_of (banned_players pl') name =
       Some \<lparr>bp_name = name, bp_reason = why, ban_time = now,
             unban_time = (if hours = 0 then time_point_max
                           else now + hours_to_duration hours),
             is_permanent = (hours = 0)\<rparr> \<and>
     (\<forall>k. k \<noteq> name \<longrightarrow> map_of (banned_players pl') k = map_of (banned_players pl) k) \<and>
     (\<forall>t :: time_point. t \<le>s time_point_max \<and> (t \<noteq> time_point_max \<longrightarrow> t <s time_point_max)) \<and>
     (hours \<noteq> 0 \<and> sint now + uint hours * 3600000000000 < 2 ^ 63 \<longrightarrow>
        sint (now + hours_to_duration hours) = sint now + uint hours * 3600000000000) \<and>
     sint (now + hours_to_duration hours)
       = signed_take_bit 63 (sint now + uint hours * 3600000000000) \<and>
     program pl' =
       snd (send_string (''ban '' @ name @ '' '' @ why @ [newline]) (program pl)) \<and>
     (running (program pl) \<and> stdin_pipe_1 (program pl) \<noteq> - 1 \<longrightarrow>
        stdin_data (program pl') =
          stdin_data (program pl) @ ''ban '' @ name @ '' '' @ why @ [newline])"
proof -
  from assms have ok: "ok"
    and bp: "banned_players pl' =
       AList.update name
         \<lparr>bp_name = name, bp_reason = why, ban_time = now,
          unban_time = (if hours = 0 then time_point_max
                        else now + hours_to_duration hours),
          is_permanent = (hours = 0)\<rparr> (banned_players pl)"
    and pr: "program pl' =
       snd (send_string (''ban '' @ name @ '' '' @ why @ [newline]) (program pl))"
    by (auto simp: ban_def Let_def save_files_def)
  from bp have m1: "map_of (banned_players pl') name =
       Some \<lparr>bp_name = name, bp_reason = why, ban_time = now,
             unban_time = (if hours = 0 then time_point_max
                           else now + hours_to_duration hours),
             is_permanent = (hours = 0)\<rparr>"
    and m2: "\<forall>k. k \<noteq> name \<longrightarrow> map_of (banned_players pl') k = map_of (banned_players pl) k"
    by (simp_all add: update_conv')
  have sentinel: "\<forall>t :: time_point.
      t \<le>s time_point_max \<and> (t \<noteq> time_point_max \<longrightarrow> t <s time_point_max)"
    using time_point_le_max time_point_less_max by blast
  have sent: "running (program pl) \<and> stdin_pipe_1 (program pl) \<noteq> - 1 \<longrightarrow>
        stdin_data (program pl') =
          stdin_data (program pl) @ ''ban '' @ name @ '' '' @ why @ [newline]"
    using pr by (simp add: send_string_def)
  from ok m1 m2 sentinel hours_no_overflow[of now hours] hours_wrapped[of now hours] pr sent
  show ?thesis
    by blast
qed

theorem C6_ban_witness:
  "map_of (banned_players (snd (ban utc_env 1000 ''Alice'' ''grief'' 24 example_player_list)))
     ''Alice''
     = Some \<lparr>bp_name = ''Alice'', bp_reason = ''grief'', ban_time = 1000,
             unban_time = 86400000001000, is_permanent = False\<rparr> \<and>
   stdin_data (program (snd (ban utc_env 1000 ''Alice'' ''grief'' 24 example_player_list)))
     = ''ban Alice grief'' @ [newline] \<and>
   map_of (banned_players (snd (ban utc_env 1000 ''Alice'' ''grief'' 0 example_player_list)))
     ''Alice''
     = Some \<lparr>bp_name = ''Alice'', bp_reason = ''grief'', ban_time = 1000,
             unban_time = time_point_max, is_permanent = True\<rparr> \<and>
   (1000 :: time_point) <s time_point_max"
proof -
  note b24 = C6_ban[OF surjective_pairing, of utc_env 1000 "''Alice''" "''grief''" 24
      example_player_list]
  note b0 = C6_ban[OF surjective_pairing, of utc_env 1000 "''Alice''" "''grief''" 0
      example_player_list]
  have run: "running (program example_player_list) \<and>
             stdin_pipe_1 (program example_player_list) \<noteq> - 1"
    and empty: "stdin_data (program example_player_list) = []"
    by (simp_all add: example_player_list_def example_program_def)
  have ne: "(1000 :: time_point) \<noteq> time_point_max"
    by (simp add: time_point_max_def)
  from b24 have "map_of (banned_players (snd (ban utc_env 1000 ''Alice'' ''grief'' 24 example_player_list)))
     ''Alice''
     = Some \<lparr>bp_name = ''Alice'', bp_reason = ''grief'', ban_time = 1000,
             unban_time = (if (24 :: 64 word) = 0 then time_point_max
                           else 1000 + hours_to_duration 24),
             is_permanent = ((24 :: 64 word) = 0)\<rparr>"
    by blast
  then have "map_of (banned_players (snd (ban utc_env 1000 ''Alice'' ''grief'' 24 example_player_list)))
     ''Alice''
     = Some \<lparr>bp_name = ''Alice'', bp_reason = ''grief'', ban_time = 1000,
             unban_time = 86400000001000, is_permanent = False\<rparr>"
    by (simp add: hours_to_duration_def)
  moreover from b24 run
  have "stdin_data (program (snd (ban utc_env 1000 ''Alice'' ''grief'' 24 example_player_list)))
     = stdin_data (program example_player_list) @ ''ban '' @ ''Alice'' @ '' '' @ ''grief''
         @ [newline]"
    by blast
  with empty
  have "stdin_data (program (snd (ban utc_env 1000 ''Alice'' ''grief'' 24 example_player_list)))
     = ''ban Alice grief'' @ [newline]"
    by simp
  moreover from b0
  have "map_of (banned_players (snd (ban utc_env 1000 ''Alice'' ''grief'' 0 example_player_list)))
     ''Alice''
     = Some \<lparr>bp_name = ''Alice'', bp_reason = ''grief'', ban_time = 1000,
             unban_time = (if (0 :: 64 word) = 0 then time_point_max
                           else 1000 + hours_to_duration 0),
             is_permanent = ((0 :: 64 word) = 0)\<rparr>"
    by blast
  then have "map_of (banned_players (snd (ban utc_env 1000 ''Alice'' ''grief'' 0 example_player_list)))
     ''Alice''
     = Some \<lparr>bp_name = ''Alice'', bp_reason = ''grief'', ban_time = 1000,
             unban_time = time_point_max, is_permanent = True\<rparr>"
    by simp
  moreover from b0 ne have "(1000 :: time_point) <s time_point_max"
    by blast
  ultimately show ?thesis
    by simp
qed

section \<open>Saving and loading the ban file\<close>

text \<open>Reading lines: the lines written are the lines read.\<close>

lemma getlines_acc_line:
  "newline \<notin> set l \<Longrightarrow> getlines_acc (l @ newline # rest) cur = (rev cur @ l) # getlines_acc rest []"
  by (induction l arbitrary: cur) auto

lemma getlines_lines:
  "\<forall>l \<in> set ls. newline \<notin> set l \<Longrightarrow> getlines (concat (map (\<lambda>l. l @ [newline]) ls)) = ls"
proof (induction ls)
  case Nil
  then show ?case by (simp add: getlines_def)
next
  case (Cons l ls)
  then have "getlines_acc (l @ newline # concat (map (\<lambda>l. l @ [newline]) ls)) [] =
     l # getlines_acc (concat (map (\<lambda>l. l @ [newline]) ls)) []"
    using getlines_acc_line[of l _ "[]"] by simp
  with Cons show ?case by (simp add: getlines_def)
qed

text \<open>\<open>trim\<close> leaves a line alone that neither begins nor ends with a character it
  strips.\<close>

lemma trim_id:
  assumes "l \<noteq> []" "hd l \<notin> set trim_chars" "last l \<notin> set trim_chars"
  shows "trim l = l"
proof -
  from assms obtain x xs where l: "l = x # xs" by (cases l) auto
  from assms obtain ys y where r: "l = ys @ [y]" by (cases l rule: rev_cases) auto
  have nall: "\<not> (\<forall>c \<in> set l. c \<in> set trim_chars)"
    using assms l by auto
  have f: "find_first_not_of l trim_chars = Some 0"
    using nall assms l by (simp add: find_first_not_of_def)
  have tw: "takeWhile (\<lambda>c. c \<in> set trim_chars) (rev l) = []"
    using assms r by simp
  have g: "find_last_not_of l trim_chars = Some (length l - 1)"
    using nall tw by (simp add: find_last_not_of_def)
  show ?thesis
    using f g l by (simp add: trim_def substr_def)
qed

text \<open>Finding the separators of a line of four fields, and cutting it.\<close>

lemma index_of_append:
  "c \<notin> set xs \<Longrightarrow> index_of c (xs @ c # ys) = Some (length xs)"
  by (induction xs) auto

lemma find_char_at:
  "c \<notin> set xs \<Longrightarrow> length pre = pos \<Longrightarrow> find_char (pre @ xs @ c # ys) c pos = Some (pos + length xs)"
  by (simp add: find_char_def index_of_append)


lemma load_banned_line_fields:
  assumes n: "CHR ''|'' \<notin> set n" and r: "CHR ''|'' \<notin> set r" and t1: "CHR ''|'' \<notin> set t1"
    and tr: "trim (n @ CHR ''|'' # r @ CHR ''|'' # t1 @ CHR ''|'' # t2)
             = n @ CHR ''|'' # r @ CHR ''|'' # t1 @ CHR ''|'' # t2"
    and hd: "n = [] \<or> hd n \<noteq> CHR ''#''"
  shows "load_banned_line env (n @ CHR ''|'' # r @ CHR ''|'' # t1 @ CHR ''|'' # t2) b =
     AList.update n
       \<lparr>bp_name = n, bp_reason = r, ban_time = string_to_time env t1,
        unban_time = string_to_time env t2,
        is_permanent = (t2 = permanent_time_string)\<rparr> b"
proof -
  let ?line = "n @ CHR ''|'' # r @ CHR ''|'' # t1 @ CHR ''|'' # t2"
  have p1: "find_char ?line CHR ''|'' 0 = Some (length n)"
    using find_char_at[OF n, of "[]" 0] by simp
  have p2: "find_char ?line CHR ''|'' (length n + 1) = Some (length n + 1 + length r)"
    using find_char_at[OF r, of "n @ [CHR ''|'']" "length n + 1"] by simp
  have p3: "find_char ?line CHR ''|'' (length n + 1 + length r + 1)
            = Some (length n + 1 + length r + 1 + length t1)"
    using find_char_at[OF t1, of "n @ CHR ''|'' # r @ [CHR ''|'']" "length n + 1 + length r + 1"]
    by simp
  have ne: "?line \<noteq> []" by simp
  have h: "hd ?line \<noteq> CHR ''#''"
    using hd by (cases n) auto
  have s1: "substr ?line 0 (length n) = n"
    by (simp add: substr_def)
  have s2: "substr ?line (length n + 1) (length n + 1 + length r - length n - 1) = r"
    by (simp add: substr_def)
  have s3: "substr ?line (length n + 1 + length r + 1)
              (length n + 1 + length r + 1 + length t1 - (length n + 1 + length r) - 1) = t1"
    by (simp add: substr_def)
  define pre where "pre = n @ CHR ''|'' # r @ CHR ''|'' # t1 @ [CHR ''|'']"
  have l: "?line = pre @ t2"
    and len: "length n + 1 + length r + 1 + length t1 + 1 = length pre"
    by (simp_all add: pre_def)
  have s4: "substr_from ?line (length n + 1 + length r + 1 + length t1 + 1) = t2"
    unfolding substr_from_def l len by simp
  show ?thesis
    unfolding load_banned_line_def tr Let_def
    using ne h p1 p2 p3 s1 s2 s3 s4
    by (simp add: pos_succ_def)
qed


text \<open>One record, written and read back.\<close>

lemma pts_props:
  "permanent_time_string \<noteq> []" "CHR ''|'' \<notin> set permanent_time_string"
  "newline \<notin> set permanent_time_string" "last permanent_time_string \<notin> set trim_chars"
  by (simp_all add: permanent_time_string_def newline_def trim_chars_def)

lemma newline_not_bar: "newline \<noteq> CHR ''|''"
  by (simp add: newline_def)

lemma banned_fields_no_newline:
  "ban_record_ok env k info \<Longrightarrow> newline \<notin> set (banned_fields env info)"
  by (auto simp: ban_record_ok_def time_ok_def banned_fields_def time_to_string_def Let_def
      pts_props newline_not_bar)

lemma load_banned_line_record:
  assumes ok: "ban_record_ok env k info"
  shows "load_banned_line env (banned_fields env info) b = AList.update k (reloaded info) b"
proof -
  let ?n = "bp_name info" and ?r = "bp_reason info"
  let ?t1 = "put_time_local env (to_time_t (ban_time info))"
  let ?t2 = "time_to_string env (unban_time info) (is_permanent info)"
  let ?line = "?n @ CHR ''|'' # ?r @ CHR ''|'' # ?t1 @ CHR ''|'' # ?t2"
  from ok have k: "?n = k" and n: "CHR ''|'' \<notin> set ?n" and r: "CHR ''|'' \<notin> set ?r"
    and hdn: "?n = [] \<or> hd ?n \<notin> set (CHR ''#'' # trim_chars)"
    and t1ok: "time_ok env (ban_time info)"
    and t2ok: "is_permanent info \<or> time_ok env (unban_time info)"
    unfolding ban_record_ok_def by auto
  from t1ok have t1: "CHR ''|'' \<notin> set ?t1" and t1p: "?t1 \<noteq> permanent_time_string"
    and t1r: "get_time_mktime env ?t1 = to_time_t (ban_time info)"
    by (simp_all add: time_ok_def Let_def)
  have t2ne: "?t2 \<noteq> []" and t2last: "last ?t2 \<notin> set trim_chars"
    using t2ok by (auto simp: time_to_string_def time_ok_def Let_def pts_props)
  have fields: "banned_fields env info = ?line"
    by (simp add: banned_fields_def time_to_string_def)
  have "hd ?line \<notin> set trim_chars"
    using hdn by (cases ?n) (auto simp: trim_chars_def)
  moreover have "last ?line \<notin> set trim_chars"
    using t2ne t2last by simp
  ultimately have tr: "trim ?line = ?line"
    by (intro trim_id) simp_all
  have hd: "?n = [] \<or> hd ?n \<noteq> CHR ''#''"
    using hdn by auto
  have st1: "string_to_time env ?t1 = whole_seconds (ban_time info)"
    using t1p t1r by (simp add: string_to_time_def whole_seconds_def)
  have st2: "string_to_time env ?t2 =
      (if is_permanent info then time_point_max else whole_seconds (unban_time info))"
    and perm: "(?t2 = permanent_time_string) = is_permanent info"
    using t2ok
    by (auto simp: string_to_time_def whole_seconds_def time_to_string_def time_ok_def Let_def)
  have rec: "\<lparr>bp_name = ?n, bp_reason = ?r, ban_time = whole_seconds (ban_time info),
        unban_time = (if is_permanent info then time_point_max
                      else whole_seconds (unban_time info)),
        is_permanent = is_permanent info\<rparr> = reloaded info"
    by (cases info) (simp add: reloaded_def)
  from load_banned_line_fields[OF n r t1 tr hd, of env b] fields st1 st2 perm rec k
  show ?thesis
    by simp
qed

lemma load_banned_line_header:
  "load_banned_line env ''# name|reason|ban_time|unban_time'' b = b"
proof -
  have "trim ''# name|reason|ban_time|unban_time'' = ''# name|reason|ban_time|unban_time''"
    by (rule trim_id) (simp_all add: trim_chars_def)
  then show ?thesis
    by (simp add: load_banned_line_def)
qed

text \<open>All records, written and read back into an empty map.\<close>

lemma load_banned_lines:
  assumes "\<forall>(k, info) \<in> set bps. ban_record_ok env k info"
  shows "foldl (\<lambda>b l. load_banned_line env l b) b0 (map (\<lambda>p. banned_fields env (snd p)) bps)
       = foldl (\<lambda>b p. AList.update (fst p) (reloaded (snd p)) b) b0 bps"
  using assms
proof (induction bps arbitrary: b0)
  case Nil
  then show ?case by simp
next
  case (Cons p bps)
  obtain k info where p: "p = (k, info)" by (cases p)
  with Cons.prems have "ban_record_ok env k info" by simp
  from load_banned_line_record[OF this] p Cons show ?case
    by simp
qed

lemma map_of_updates:
  assumes "distinct (map fst bps)"
  shows "map_of (foldl (\<lambda>b p. AList.update (fst p) (f (snd p)) b) [] bps) k
       = map_option f (map_of bps k)"
  using assms
proof (induction bps rule: rev_induct)
  case Nil
  then show ?case by simp
next
  case (snoc p bps)
  obtain k0 i0 where p: "p = (k0, i0)" by (cases p)
  from snoc.prems p have d: "distinct (map fst bps)" and nk: "k0 \<notin> fst ` set bps"
    by auto
  from nk have none: "map_of bps k0 = None"
    by (simp add: map_of_eq_None_iff)
  show ?case
  proof (cases "k = k0")
    case True
    with p none show ?thesis
      by (simp add: update_conv' map_add_def)
  next
    case False
    with p snoc.IH[OF d] show ?thesis
      by (simp add: update_conv' map_add_def split: option.splits)
  qed
qed

lemma banned_players_load_files:
  "banned_players (load_files env pl) =
     (case banned_file pl of
        Some bf \<Rightarrow> foldl (\<lambda>b l. load_banned_line env l b) (banned_players pl) (getlines bf)
      | None \<Rightarrow> banned_players pl)"
  by (simp add: load_files_def Let_def split: option.splits)

lemma banned_file_lines:
  "banned_file (save_files env pl) =
     Some (concat (map (\<lambda>l. l @ [newline])
       (''# name|reason|ban_time|unban_time'' # map (\<lambda>p. banned_fields env (snd p)) (banned_players pl))))"
  by (simp add: save_files_def banned_header_def banned_line_def comp_def)


text \<open>A time point of whole seconds is not changed by the cut to seconds.\<close>

lemma whole_seconds_id:
  assumes "sint tp mod 1000000000 = 0"
  shows "whole_seconds tp = tp"
proof -
  from assms obtain q where q: "sint tp = q * 1000000000"
    by (metis mod_eq_0_iff_dvd dvd_def mult.commute)
  have "- (q * 1000000000) div 1000000000 = - q"
    by (simp flip: mult_minus_left)
  with q have "to_time_t tp = q"
    by (simp add: to_time_t_def Let_def)
  then have "whole_seconds tp = word_of_int (q * 1000000000)"
    by (simp add: whole_seconds_def from_time_t_def)
  also have "\<dots> = word_of_int (sint tp)"
    using q by simp
  also have "\<dots> = tp"
    by simp
  finally show ?thesis .
qed

lemma reloaded_id: "second_exact info \<Longrightarrow> reloaded info = info"
  by (cases info) (auto simp: second_exact_def reloaded_def whole_seconds_id split: if_splits)

lemma save_load_banned:
  assumes d: "distinct (map fst (banned_players pl))"
    and ok: "\<forall>(k, info) \<in> set (banned_players pl). ban_record_ok env k info"
  shows "map_of (banned_players
                   (PlayerList_new env (player_file (save_files env pl))
                      (banned_file (save_files env pl)) ff prog)) k
         = map_option reloaded (map_of (banned_players pl) k)"
proof -
  let ?lines = "map (\<lambda>p. banned_fields env (snd p)) (banned_players pl)"
  have nl: "\<forall>l \<in> set (''# name|reason|ban_time|unban_time'' # ?lines). newline \<notin> set l"
    using ok banned_fields_no_newline by (fastforce simp: newline_def)
  have "banned_players
          (PlayerList_new env (player_file (save_files env pl))
             (banned_file (save_files env pl)) ff prog)
        = foldl (\<lambda>b l. load_banned_line env l b) []
            (''# name|reason|ban_time|unban_time'' # ?lines)"
    unfolding PlayerList_new_def banned_players_load_files banned_file_lines
    using getlines_lines[OF nl]
    by (simp add: load_files_def Let_def split: option.splits)
  also have "\<dots> = foldl (\<lambda>b l. load_banned_line env l b) [] ?lines"
    by (simp add: load_banned_line_header)
  also have "\<dots> = foldl (\<lambda>b p. AList.update (fst p) (reloaded (snd p)) b) []
                      (banned_players pl)"
    by (rule load_banned_lines[OF ok])
  finally show ?thesis
    by (simp add: map_of_updates[OF d])
qed

text \<open>Evaluation of the UTC instance at the times of the concrete inputs.\<close>

lemma utc_1700000000:
  "utc_put_time 1700000000 = ''2023-11-14 22:13:20''"
  "utc_get_time_mktime ''2023-11-14 22:13:20'' = 1700000000"
  by code_simp+

lemma utc_1700086400:
  "utc_put_time 1700086400 = ''2023-11-15 22:13:20''"
  "utc_get_time_mktime ''2023-11-15 22:13:20'' = 1700086400"
  by code_simp+

lemma time_ok_examples:
  "time_ok utc_env 1700000000000000000"
  "time_ok utc_env 1700000000000000001"
  "time_ok utc_env 1700086400000000000"
  unfolding time_ok_def Let_def
  by (simp_all add: utc_env_def to_time_t_def utc_1700000000 utc_1700086400
      permanent_time_string_def newline_def trim_chars_def)

lemma example_ban_list_ok:
  "\<forall>(k, info) \<in> set (banned_players example_ban_list). ban_record_ok utc_env k info"
  by (simp add: example_ban_list_def ban_record_ok_def time_ok_examples newline_def
      trim_chars_def)

lemma subsecond_ban_list_ok:
  "\<forall>(k, info) \<in> set (banned_players subsecond_ban_list). ban_record_ok utc_env k info"
  by (simp add: subsecond_ban_list_def ban_record_ok_def time_ok_examples newline_def
      trim_chars_def)

text \<open>
  The file keeps times to the second, and the clock has nanoseconds. A record whose
  ban time is one nanosecond after a whole second comes back with the ban time cut to
  that second, so the registry read back is not equal to the one saved.
\<close>

lemma save_load_loses_nanoseconds:
  "map_of (banned_players
             (PlayerList_new utc_env (player_file (save_files utc_env subsecond_ban_list))
                (banned_file (save_files utc_env subsecond_ban_list)) None example_program))
          ''Alice''
   \<noteq> map_of (banned_players subsecond_ban_list) ''Alice''"
proof -
  have d: "distinct (map fst (banned_players subsecond_ban_list))"
    by (simp add: subsecond_ban_list_def)
  have "whole_seconds (1700000000000000001 :: time_point) = 1700000000000000000"
    by (simp add: whole_seconds_def to_time_t_def from_time_t_def)
  then show ?thesis
    unfolding save_load_banned[OF d subsecond_ban_list_ok]
    by (simp add: subsecond_ban_list_def reloaded_def)
qed

text \<open>
  What saving and loading preserves. Take a map of banned players with each name once,
  in which every record is stored under its name, names and reasons have no field
  separator \<open>|\<close> and no line break, no name begins with white space or \<open>#\<close>, and the
  library formats and parses the seconds of the times back to themselves. Saving the
  ban file and loading it into a new registry yields, under each name, the record saved
  with the same name, reason and permanence, the ban time cut to whole seconds, and the
  unban time cut to whole seconds or, for a permanent record (written as
  \<open>0000-00-00 00:00:00\<close>), the sentinel; no other name is present. A record whose times
  are whole seconds, with the sentinel if it is permanent, comes back equal.
\<close>

lemma save_load_whole_seconds:
  assumes "distinct (map fst (banned_players pl))"
    and "\<forall>(k, info) \<in> set (banned_players pl). ban_record_ok env k info"
  shows "map_of (banned_players
                   (PlayerList_new env (player_file (save_files env pl))
                      (banned_file (save_files env pl)) ff prog)) k
         = map_option reloaded (map_of (banned_players pl) k) \<and>
         (\<forall>info. map_of (banned_players pl) k = Some info \<and> second_exact info \<longrightarrow>
            map_of (banned_players
                      (PlayerList_new env (player_file (save_files env pl))
                         (banned_file (save_files env pl)) ff prog)) k
            = Some info)"
  using save_load_banned[OF assms, of ff prog k] reloaded_id by auto

text \<open>The two bans of \<open>example_ban_list\<close>, written and read back.\<close>

lemma save_load_example_ban_list:
  "distinct (map fst (banned_players example_ban_list)) \<and>
   banned_file (save_files utc_env example_ban_list)
     = Some (''# name|reason|ban_time|unban_time'' @ [newline] @
             ''Alice|grief|2023-11-14 22:13:20|2023-11-15 22:13:20'' @ [newline] @
             ''Bob|tnt|2023-11-14 22:13:20|0000-00-00 00:00:00'' @ [newline]) \<and>
   map_of (banned_players
             (PlayerList_new utc_env (player_file (save_files utc_env example_ban_list))
                (banned_file (save_files utc_env example_ban_list)) None example_program))
          ''Alice''
     = map_of (banned_players example_ban_list) ''Alice'' \<and>
   map_of (banned_players
             (PlayerList_new utc_env (player_file (save_files utc_env example_ban_list))
                (banned_file (save_files utc_env example_ban_list)) None example_program))
          ''Bob''
     = Some \<lparr>bp_name = ''Bob'', bp_reason = ''tnt'', ban_time = 1700000000000000000,
             unban_time = time_point_max, is_permanent = True\<rparr>"
proof -
  have d: "distinct (map fst (banned_players example_ban_list))"
    by (simp add: example_ban_list_def)
  have bfile: "banned_file (save_files utc_env example_ban_list)
     = Some (''# name|reason|ban_time|unban_time'' @ [newline] @
             ''Alice|grief|2023-11-14 22:13:20|2023-11-15 22:13:20'' @ [newline] @
             ''Bob|tnt|2023-11-14 22:13:20|0000-00-00 00:00:00'' @ [newline])"
    by (simp add: save_files_def example_ban_list_def banned_header_def banned_line_def
        banned_fields_def time_to_string_def utc_env_def to_time_t_def utc_1700000000
        utc_1700086400 permanent_time_string_def)
  have alice: "map_of (banned_players example_ban_list) ''Alice''
      = Some \<lparr>bp_name = ''Alice'', bp_reason = ''grief'',
               ban_time = 1700000000000000000, unban_time = 1700086400000000000,
               is_permanent = False\<rparr>"
    and bob: "map_of (banned_players example_ban_list) ''Bob''
      = Some \<lparr>bp_name = ''Bob'', bp_reason = ''tnt'', ban_time = 1700000000000000000,
               unban_time = time_point_max, is_permanent = True\<rparr>"
    by (simp_all add: example_ban_list_def)
  have ea: "second_exact \<lparr>bp_name = ''Alice'', bp_reason = ''grief'',
               ban_time = 1700000000000000000, unban_time = 1700086400000000000,
               is_permanent = False\<rparr>"
    and eb: "second_exact \<lparr>bp_name = ''Bob'', bp_reason = ''tnt'',
               ban_time = 1700000000000000000, unban_time = time_point_max,
               is_permanent = True\<rparr>"
    by (simp_all add: second_exact_def)
  from save_load_whole_seconds[OF d example_ban_list_ok, of None example_program "''Alice''"] alice ea
  have la: "map_of (banned_players
             (PlayerList_new utc_env (player_file (save_files utc_env example_ban_list))
                (banned_file (save_files utc_env example_ban_list)) None example_program))
          ''Alice'' = map_of (banned_players example_ban_list) ''Alice''"
    by metis
  from save_load_whole_seconds[OF d example_ban_list_ok, of None example_program "''Bob''"] bob eb
  have lb: "map_of (banned_players
             (PlayerList_new utc_env (player_file (save_files utc_env example_ban_list))
                (banned_file (save_files utc_env example_ban_list)) None example_program))
          ''Bob''
     = Some \<lparr>bp_name = ''Bob'', bp_reason = ''tnt'', ban_time = 1700000000000000000,
             unban_time = time_point_max, is_permanent = True\<rparr>"
    by metis
  from d example_ban_list_ok bfile la lb show ?thesis
    by blast
qed

section \<open>Log processing at a line without a player name\<close>

text \<open>The steps of \<open>process_log_line\<close> on the line, evaluated one by one.\<close>

lemma line_clean: "remove_ansi ''[12:35:00] [Server thread/INFO]:  issued server command: /kill all''
   = ''[12:35:00] [Server thread/INFO]:  issued server command: /kill all''"
  by (simp add: is_digit_def is_digit_or_semicolon_def)

lemma line_content_start: "find_str ''[12:35:00] [Server thread/INFO]:  issued server command: /kill all'' '']: '' 0 = Some 30"
  by (simp add: find_str_def)

lemma not_joined_with: "branch_joined_with '' issued server command: /kill all'' ev pl = None"
  by (simp add: branch_joined_with_def find_str_def)

lemma not_joined_the_game: "branch_joined_the_game '' issued server command: /kill all'' ev pl = None"
  by (simp add: branch_joined_the_game_def find_str_def)

lemma not_left_the_game: "branch_left_the_game '' issued server command: /kill all'' ev pl = None"
  by (simp add: branch_left_the_game_def find_str_def)

lemma line_match_str: "to_lower (remove_spaces '' issued server command: /kill all'') = ''issuedservercommand:/killall''"
  by code_simp

lemma rule_keyword: "to_lower (remove_spaces ''killall'') = ''killall''"
  by code_simp

lemma keyword_found: "find_str ''issuedservercommand:/killall'' ''killall'' 0 = Some 21"
  by (simp add: find_str_def)

lemma issued_found: "find_str '' issued server command: /kill all'' '' issued server command: /'' 0 = Some 0"
  by (simp add: find_str_def)

lemma trim_Nil: "trim [] = []"
  by (simp add: trim_def find_first_not_of_def)

lemma pop_newlines_kill_all: "pop_newlines ''kill all'' = ''kill all''"
  by (simp add: pop_newlines_def newline_def)

lemma example_rules: "forbidden_commands example_player_list
            = [\<lparr>fc_command = ''killall'', ban_hours = 0\<rparr>]"
    by (simp add: example_player_list_def)

lemma line_command: "substr_from '' issued server command: /kill all'' (0 + 25) = ''kill all''"
  by (simp add: substr_from_def)

lemma scan_example_rule: "scan_forbidden_commands env now_reason now_ban ''issuedservercommand:/killall'' ev
     [\<lparr>fc_command = ''killall'', ban_hours = 0\<rparr>] pl
   = snd (ban env now_ban (ev_player_name ev)
        (msg_forbidden_command @ ev_content ev @ msg_will_be @ msg_banned_forever @ msg_appeal) 0 pl)"
  by (simp add: rule_keyword keyword_found Let_def)

lemma issued_branch_example: "branch_issued_command env now_reason now_ban
      '' issued server command: /kill all'' ev example_player_list
    = Some (ev\<lparr>ev_player_name := [], ev_content := ''/kill all'', ev_type := PLAYER_COMMAND\<rparr>,
            snd (ban env now_ban []
             (msg_forbidden_command @ ''kill all'' @ msg_will_be @ msg_banned_forever @
              msg_appeal)
             0 example_player_list))"
  unfolding branch_issued_command_def issued_found option.case Let_def line_match_str example_rules line_command pop_newlines_kill_all scan_example_rule
  by (simp add: substr_def trim_Nil)

lemma line_content:
  "substr_from ''[12:35:00] [Server thread/INFO]:  issued server command: /kill all'' (30 + 3)
   = '' issued server command: /kill all''"
  by (simp add: substr_from_def)

text \<open>Both loops stop at the first rule whose keyword occurs in the match string:
  the first rule wins.\<close>

lemma scan_commands_first_match:
  "scan_forbidden_commands env now_reason now_ban match_str event fcs pl =
     (case List.find (\<lambda>fc. find_str match_str (to_lower (remove_spaces (fc_command fc))) 0
                             \<noteq> None) fcs of
        None \<Rightarrow> pl
      | Some fc \<Rightarrow>
          snd (ban env now_ban (ev_player_name event)
                 (msg_forbidden_command @ ev_content event @ msg_will_be @
                  (if ban_hours fc \<noteq> 0
                   then msg_banned_until @
                        time_to_string env (now_reason + hours_to_duration (ban_hours fc))
                          False @
                        msg_full_stop
                   else msg_banned_forever) @
                  msg_appeal)
                 (ban_hours fc) pl))"
  by (induction fcs) (simp_all add: Let_def)

lemma scan_operations_first_match:
  "found_player \<noteq> [] \<Longrightarrow>
   scan_forbidden_operations env now_reason now_ban match_str found_player event fcs pl =
     (case List.find (\<lambda>fc. find_str match_str (to_lower (remove_spaces (fc_command fc))) 0
                             \<noteq> None) fcs of
        None \<Rightarrow> pl
      | Some fc \<Rightarrow>
          snd (ban env now_ban found_player
                 (msg_forbidden_operation @ ev_content event @ '']'' @ msg_will_be @
                  (if ban_hours fc \<noteq> 0
                   then msg_banned_until @
                        time_to_string env (now_reason + hours_to_duration (ban_hours fc))
                          False @
                        msg_full_stop
                   else msg_banned_forever) @
                  msg_appeal)
                 (ban_hours fc) pl))"
  by (induction fcs) (simp_all add: Let_def)

text \<open>The bracket branch never bans when no known player was found in the line.\<close>

lemma scan_operations_no_player:
  "scan_forbidden_operations env now_reason now_ban match_str [] event fcs pl = pl"
  by (induction fcs) simp_all

text \<open>
  Claim C4. The claim says that a ban is issued only when the match string contains the
  rule's key and a player name is known. The bracket branch tests both (see
  \<open>scan_operations_no_player\<close>); the issued-command branch tests only the key. On the
  line below, where nothing stands before \<open>issued server command\<close>, with the rule
  \<open>killall\<close> loaded and no player known, the event has an empty player name and
  \<open>ban\<close> is called with the empty name: a record is stored under the empty name and
  \<open>ban  <reason>\<close> is sent to the child.
\<close>

theorem C4_ban_without_player:
  "process_log_line env now_reason now_ban
     ''[12:35:00] [Server thread/INFO]:  issued server command: /kill all''
     example_player_list
   = (\<lparr>ev_type = PLAYER_COMMAND, ev_player_name = [], ev_content = ''/kill all'',
       ev_client_info = [],
       ev_timestamp = parse_log_time env
         ''[12:35:00] [Server thread/INFO]:  issued server command: /kill all''\<rparr>,
      snd (ban env now_ban []
             (msg_forbidden_command @ ''kill all'' @ msg_will_be @ msg_banned_forever @
              msg_appeal)
             0 example_player_list)) \<and>
   map_of (banned_players
             (snd (ban env now_ban []
                     (msg_forbidden_command @ ''kill all'' @ msg_will_be @
                      msg_banned_forever @ msg_appeal)
                     0 example_player_list))) []
   = Some \<lparr>bp_name = [],
           bp_reason = msg_forbidden_command @ ''kill all'' @ msg_will_be @
                       msg_banned_forever @ msg_appeal,
           ban_time = now_ban, unban_time = time_point_max, is_permanent = True\<rparr> \<and>
   stdin_data (program
                 (snd (ban env now_ban []
                         (msg_forbidden_command @ ''kill all'' @ msg_will_be @
                          msg_banned_forever @ msg_appeal)
                         0 example_player_list)))
   = ''ban  '' @ msg_forbidden_command @ ''kill all'' @ msg_will_be @ msg_banned_forever @
     msg_appeal @ [newline]"
proof -
  have run: "process_log_line env now_reason now_ban
     ''[12:35:00] [Server thread/INFO]:  issued server command: /kill all''
     example_player_list
   = (\<lparr>ev_type = PLAYER_COMMAND, ev_player_name = [], ev_content = ''/kill all'',
       ev_client_info = [],
       ev_timestamp = parse_log_time env
         ''[12:35:00] [Server thread/INFO]:  issued server command: /kill all''\<rparr>,
      snd (ban env now_ban []
             (msg_forbidden_command @ ''kill all'' @ msg_will_be @ msg_banned_forever @
              msg_appeal)
             0 example_player_list))"
    unfolding process_log_line_def line_clean Let_def line_content_start option.case
      line_content not_joined_with not_joined_the_game not_left_the_game
      issued_branch_example
    by simp
  have banned: "map_of (banned_players (snd (ban env now_ban [] why 0 example_player_list))) []
     = Some \<lparr>bp_name = [], bp_reason = why, ban_time = now_ban,
             unban_time = time_point_max, is_permanent = True\<rparr>"
    and sent: "stdin_data (program (snd (ban env now_ban [] why 0 example_player_list)))
     = ''ban  '' @ why @ [newline]" for why
    by (simp_all add: ban_def Let_def save_files_def example_player_list_def
        example_program_def send_string_def)
  from run banned sent show ?thesis
    by simp
qed

text \<open>
  The match string of the issued-command branch is made from the whole text after
  \<open>]: \<close>, the player's name included, not from the command alone: with the rule
  \<open>op\<close>, whose key does not occur in \<open>/help\<close>, the player Cooper is banned for
  issuing \<open>/help\<close>.
\<close>

lemma cooper_found:
  "find_str ''Cooper issued server command: /help'' '' issued server command: /'' 0 = Some 6"
  by (simp add: find_str_def)

lemma cooper_match:
  "to_lower (remove_spaces ''Cooper issued server command: /help'')
   = ''cooperissuedservercommand:/help''"
  by code_simp

lemma cooper_key: "to_lower (remove_spaces ''op'') = ''op''"
  by code_simp

lemma cooper_key_found: "find_str ''cooperissuedservercommand:/help'' ''op'' 0 = Some 2"
  by (simp add: find_str_def)

lemma cooper_key_not_in_command: "find_str (to_lower (remove_spaces ''/help'')) ''op'' 0 = None"
  by code_simp

lemma cooper_name: "trim (substr ''Cooper issued server command: /help'' 0 6) = ''Cooper''"
  by code_simp

lemma cooper_command:
  "pop_newlines (substr_from ''Cooper issued server command: /help'' (6 + 25)) = ''help''"
  by (simp add: pop_newlines_def substr_from_def newline_def)

lemma issued_branch_matches_player_name:
  "branch_issued_command env now_reason now_ban ''Cooper issued server command: /help'' ev
     (pl\<lparr>forbidden_commands := [\<lparr>fc_command = ''op'', ban_hours = 0\<rparr>]\<rparr>)
   = Some (ev\<lparr>ev_player_name := ''Cooper'', ev_content := ''/help'',
              ev_type := PLAYER_COMMAND\<rparr>,
           snd (ban env now_ban ''Cooper''
                  (msg_forbidden_command @ ''help'' @ msg_will_be @ msg_banned_forever @
                   msg_appeal)
                  0 (pl\<lparr>forbidden_commands := [\<lparr>fc_command = ''op'', ban_hours = 0\<rparr>]\<rparr>)))"
  unfolding branch_issued_command_def cooper_found option.case Let_def cooper_match
    cooper_name cooper_command
  by (simp add: cooper_key cooper_key_found)

section \<open>A field separator in the reason of a ban\<close>

text \<open>
  \<open>save_files\<close> writes the four fields of a record with \<open>|\<close> between them and does not
  escape the fields; \<open>load_files\<close> cuts a line at its first three \<open>|\<close>. The reason of a
  ban made by \<open>process_log_line\<close> contains the text of the player's command. The steps
  of \<open>process_log_line\<close> on \<open>separator_line\<close>, where Alice issues the forbidden
  command \<open>kill all |\<close>, evaluated one by one.
\<close>

lemma separator_line_clean: "remove_ansi separator_line = separator_line"
  by (simp add: separator_line_def is_digit_def is_digit_or_semicolon_def)

lemma separator_content_start: "find_str separator_line '']: '' 0 = Some 30"
  by (simp add: separator_line_def find_str_def)

lemma separator_content:
  "substr_from separator_line (30 + 3) = ''Alice issued server command: /kill all |''"
  by (simp add: separator_line_def substr_from_def)

lemma separator_not_joined_with:
  "branch_joined_with ''Alice issued server command: /kill all |'' ev pl = None"
  by (simp add: branch_joined_with_def find_str_def)

lemma separator_not_joined_the_game:
  "branch_joined_the_game ''Alice issued server command: /kill all |'' ev pl = None"
  by (simp add: branch_joined_the_game_def find_str_def)

lemma separator_not_left_the_game:
  "branch_left_the_game ''Alice issued server command: /kill all |'' ev pl = None"
  by (simp add: branch_left_the_game_def find_str_def)

lemma separator_found:
  "find_str ''Alice issued server command: /kill all |'' '' issued server command: /'' 0
   = Some 5"
  by (simp add: find_str_def)

lemma separator_match:
  "to_lower (remove_spaces ''Alice issued server command: /kill all |'')
   = ''aliceissuedservercommand:/killall|''"
  by code_simp

lemma separator_key_found:
  "find_str ''aliceissuedservercommand:/killall|'' ''killall'' 0 = Some 26"
  by (simp add: find_str_def)

lemma separator_name:
  "trim (substr ''Alice issued server command: /kill all |'' 0 5) = ''Alice''"
  by code_simp

lemma separator_command:
  "pop_newlines (substr_from ''Alice issued server command: /kill all |'' (5 + 25))
   = ''kill all |''"
  by (simp add: pop_newlines_def substr_from_def newline_def)

lemma separator_branch:
  "branch_issued_command env now_reason now_ban
     ''Alice issued server command: /kill all |'' ev example_player_list
   = Some (ev\<lparr>ev_player_name := ''Alice'', ev_content := ''/kill all |'',
              ev_type := PLAYER_COMMAND\<rparr>,
           snd (ban env now_ban ''Alice'' separator_reason 0 example_player_list))"
  unfolding branch_issued_command_def separator_found option.case Let_def separator_match
    separator_name separator_command example_rules
  by (simp add: rule_keyword separator_key_found separator_reason_def
      separator_reason_head_def separator_reason_tail_def)

lemma separator_log_line:
  "snd (process_log_line utc_env now_reason 1700000000000000000 separator_line
          example_player_list)
   = separator_ban_list"
  unfolding process_log_line_def separator_line_clean Let_def separator_content_start
    option.case separator_content separator_not_joined_with separator_not_joined_the_game
    separator_not_left_the_game separator_branch
  by (simp add: separator_ban_list_def)

text \<open>The record stored for Alice, and the line written for it.\<close>

lemma separator_saved:
  "banned_players separator_ban_list
   = [(''Alice'', \<lparr>bp_name = ''Alice'', bp_reason = separator_reason,
                   ban_time = 1700000000000000000, unban_time = time_point_max,
                   is_permanent = True\<rparr>)]"
  by (simp add: separator_ban_list_def ban_def Let_def save_files_def
      example_player_list_def)

lemma separator_fields:
  "banned_fields utc_env
     \<lparr>bp_name = ''Alice'', bp_reason = separator_reason,
      ban_time = 1700000000000000000, unban_time = time_point_max, is_permanent = True\<rparr>
   = ''Alice'' @ CHR ''|'' # separator_reason_head @ CHR ''|'' # separator_reason_tail @
     CHR ''|'' # ''2023-11-14 22:13:20|0000-00-00 00:00:00''"
  by (simp add: banned_fields_def time_to_string_def utc_env_def to_time_t_def
      utc_1700000000 separator_reason_def permanent_time_string_def)

lemma separator_parts:
  "CHR ''|'' \<notin> set separator_reason_head" "CHR ''|'' \<notin> set separator_reason_tail"
  "newline \<notin> set separator_reason_head" "newline \<notin> set separator_reason_tail"
  by (simp_all add: separator_reason_head_def separator_reason_tail_def
      msg_forbidden_command_def msg_will_be_def msg_banned_forever_def msg_appeal_def
      newline_def)

text \<open>The line read back: the reason ends at the separator inside it, the rest of the
  reason is taken for the ban time, and the two times together for the unban time.\<close>

lemma separator_loaded_line:
  "load_banned_line env
     (''Alice'' @ CHR ''|'' # separator_reason_head @ CHR ''|'' # separator_reason_tail @
      CHR ''|'' # ''2023-11-14 22:13:20|0000-00-00 00:00:00'') []
   = [(''Alice'', \<lparr>bp_name = ''Alice'', bp_reason = separator_reason_head,
                   ban_time = string_to_time env separator_reason_tail,
                   unban_time = string_to_time env ''2023-11-14 22:13:20|0000-00-00 00:00:00'',
                   is_permanent = False\<rparr>)]"
proof -
  let ?line = "''Alice'' @ CHR ''|'' # separator_reason_head @ CHR ''|'' #
               separator_reason_tail @ CHR ''|'' # ''2023-11-14 22:13:20|0000-00-00 00:00:00''"
  have tr: "trim ?line = ?line"
    by (rule trim_id) (simp_all add: trim_chars_def)
  have "load_banned_line env ?line [] =
     AList.update ''Alice''
       \<lparr>bp_name = ''Alice'', bp_reason = separator_reason_head,
        ban_time = string_to_time env separator_reason_tail,
        unban_time = string_to_time env ''2023-11-14 22:13:20|0000-00-00 00:00:00'',
        is_permanent = (''2023-11-14 22:13:20|0000-00-00 00:00:00'' = permanent_time_string)\<rparr>
       []"
  proof (rule load_banned_line_fields)
    show "CHR ''|'' \<notin> set ''Alice''"
      by simp
    show "CHR ''|'' \<notin> set separator_reason_head"
      by (rule separator_parts)
    show "CHR ''|'' \<notin> set separator_reason_tail"
      by (rule separator_parts)
    show "trim ?line = ?line"
      by (rule tr)
    show "''Alice'' = [] \<or> hd ''Alice'' \<noteq> CHR ''#''"
      by simp
  qed
  then show ?thesis
    by (simp add: permanent_time_string_def)
qed

lemma separator_times:
  "string_to_time utc_env separator_reason_tail = - 2209075200000000000"
  "string_to_time utc_env ''2023-11-14 22:13:20|0000-00-00 00:00:00'' = 1700000000000000000"
proof -
  have a: "utc_get_time_mktime separator_reason_tail = - 2209075200"
    by code_simp
  have b: "utc_get_time_mktime ''2023-11-14 22:13:20|0000-00-00 00:00:00'' = 1700000000"
    by code_simp
  have c: "separator_reason_tail \<noteq> permanent_time_string"
    by (simp add: separator_reason_tail_def msg_will_be_def permanent_time_string_def)
  from a c show "string_to_time utc_env separator_reason_tail = - 2209075200000000000"
    by (simp add: string_to_time_def utc_env_def from_time_t_def)
  from b show "string_to_time utc_env ''2023-11-14 22:13:20|0000-00-00 00:00:00''
               = 1700000000000000000"
    by (simp add: string_to_time_def utc_env_def from_time_t_def permanent_time_string_def)
qed

text \<open>
  Claim C5. The claim says that saving the ban file and loading it gives back every
  record with the same name, reason, times and permanence. The log line
  \<open>separator_line\<close>, under the permanent rule \<open>killall\<close>, makes \<open>process_log_line\<close>
  store a permanent ban of Alice whose reason contains the separator \<open>|\<close>. Saved and
  loaded into a new registry, the record comes back with its reason cut at that
  separator, not permanent, with the time of a zeroed \<open>struct tm\<close> as its ban time and
  the second of the ban as its unban time: the permanent ban has become one that is
  over.
\<close>

theorem C5_separator_in_reason:
  "snd (process_log_line utc_env 1700000000000000000 1700000000000000000 separator_line
          example_player_list)
   = separator_ban_list \<and>
   map_of (banned_players separator_ban_list) ''Alice''
   = Some \<lparr>bp_name = ''Alice'', bp_reason = separator_reason,
           ban_time = 1700000000000000000, unban_time = time_point_max,
           is_permanent = True\<rparr> \<and>
   map_of (banned_players
             (PlayerList_new utc_env (player_file (save_files utc_env separator_ban_list))
                (banned_file (save_files utc_env separator_ban_list)) None example_program))
          ''Alice''
   = Some \<lparr>bp_name = ''Alice'', bp_reason = separator_reason_head,
           ban_time = - 2209075200000000000, unban_time = 1700000000000000000,
           is_permanent = False\<rparr>"
proof -
  let ?rec = "\<lparr>bp_name = ''Alice'', bp_reason = separator_reason,
               ban_time = 1700000000000000000, unban_time = time_point_max,
               is_permanent = True\<rparr>"
  let ?line = "''Alice'' @ CHR ''|'' # separator_reason_head @ CHR ''|'' #
               separator_reason_tail @ CHR ''|'' # ''2023-11-14 22:13:20|0000-00-00 00:00:00''"
  have nl: "\<forall>l \<in> set [''# name|reason|ban_time|unban_time'', ?line]. newline \<notin> set l"
    by (simp add: separator_parts) (simp add: newline_def)
  have "banned_players
          (PlayerList_new utc_env (player_file (save_files utc_env separator_ban_list))
             (banned_file (save_files utc_env separator_ban_list)) None example_program)
        = foldl (\<lambda>b l. load_banned_line utc_env l b) []
            [''# name|reason|ban_time|unban_time'', ?line]"
    unfolding PlayerList_new_def banned_players_load_files banned_file_lines separator_saved
    using getlines_lines[OF nl]
    by (simp add: load_files_def Let_def separator_fields split: option.splits)
  also have "\<dots> = load_banned_line utc_env ?line []"
    by (simp add: load_banned_line_header)
  also have "\<dots> = [(''Alice'', \<lparr>bp_name = ''Alice'', bp_reason = separator_reason_head,
                   ban_time = - 2209075200000000000, unban_time = 1700000000000000000,
                   is_permanent = False\<rparr>)]"
    by (simp only: separator_loaded_line separator_times)
  finally have loaded: "map_of (banned_players
             (PlayerList_new utc_env (player_file (save_files utc_env separator_ban_list))
                (banned_file (save_files utc_env separator_ban_list)) None example_program))
          ''Alice''
   = Some \<lparr>bp_name = ''Alice'', bp_reason = separator_reason_head,
           ban_time = - 2209075200000000000, unban_time = 1700000000000000000,
           is_permanent = False\<rparr>"
    by simp
  have saved: "map_of (banned_players separator_ban_list) ''Alice'' = Some ?rec"
    by (simp add: separator_saved)
  from separator_log_line[of 1700000000000000000] saved loaded show ?thesis
    by simp
qed
end
